theory Spec2Isabelle
  imports Complex_Main
begin

section \<open>Data model\<close>

text \<open>
  Errors of \<^verbatim>\<open>microAO/aoAlg.py\<close> as values. The source raises plain
  \<^verbatim>\<open>Exception\<close> objects told apart by their message; each gets a constructor
  named after the error kind the specification gives it:
  \<^item> \<open>InsufficientSamplesError n\<close>: \<^verbatim>\<open>Exception("Not enough Zernike mode values to
    calculate slope for actuator %i. ..." % n)\<close> of \<^verbatim>\<open>create_control_matrix\<close>;
  \<^item> \<open>DimensionMismatchError\<close>: the bare \<^verbatim>\<open>raise Exception\<close> after the failed
    \<^verbatim>\<open>assert\<close> of \<^verbatim>\<open>ac_pos_from_zernike\<close>;
  \<^item> \<open>FilterConstructionError\<close>: \<^verbatim>\<open>Exception("Interferometer stripes are too
    fine. ...")\<close> of \<^verbatim>\<open>make_fft_filter\<close>;
  \<^item> \<open>NotCalibratedError\<close>: named by the specification only; no statement of the
    source raises it.
  \<^item> \<open>NoneOperandError\<close>: what numpy raises when a routine or an operator is handed
    \<^verbatim>\<open>None\<close> where it needs an array: TypeError from the product of an array with
    \<^verbatim>\<open>None\<close>, and TypeError or ValueError, by the version of numpy, where
    \<^verbatim>\<open>None\<close> goes through \<^verbatim>\<open>np.fft.fftshift\<close> into a product.
  The other constructors are the Python and numpy exceptions of the same name.
\<close>

datatype py_error =
    ValueError
  | TypeError
  | IndexError
  | ZeroDivisionError
  | KeyError
  | RuntimeError
  | InsufficientSamplesError nat
  | DimensionMismatchError
  | FilterConstructionError
  | NotCalibratedError
  | NoneOperandError

text \<open>
  A two-dimensional numpy array of floats, kept as its \<^verbatim>\<open>shape\<close> and its rows.
  The shape is stored because an array with no rows still has a column count
  (\<^verbatim>\<open>zernikeAmps.shape[1]\<close>). Floats are idealised as reals.
\<close>

record matrix =
  shape0 :: nat
  shape1 :: nat
  rows :: "real list list"

definition wf_matrix :: "matrix \<Rightarrow> bool" where
  "wf_matrix m = (length (rows m) = shape0 m \<and> list_all (\<lambda>r. length r = shape1 m) (rows m))"

text \<open>
  The fields \<^verbatim>\<open>__init__\<close> sets: the aperture mask, the Fourier filter, the control
  matrix (all \<^verbatim>\<open>None\<close> at first) and the name of the image quality metric.
\<close>

record 'arr ao_state =
  mask :: "'arr option"
  fft_filter :: "'arr option"
  controlMatrix :: "matrix option"
  metric :: string

definition init :: "'arr ao_state" where
  "init = \<lparr>mask = None, fft_filter = None, controlMatrix = None, metric = ''fourier''\<rparr>"

section \<open>Command synthesis: \<^verbatim>\<open>ac_pos_from_zernike\<close>\<close>

text \<open>\<^verbatim>\<open>np.dot(M, v)\<close> of a matrix and a vector of length \<^verbatim>\<open>M.shape[1]\<close>.\<close>

definition dot :: "matrix \<Rightarrow> real list \<Rightarrow> real list" where
  "dot m v = map (\<lambda>r. sum_list (map2 (*) r v)) (rows m)"

text \<open>
  \<^verbatim>\<open>ac_pos_from_zernike(self, applied_z_modes, numActuators)\<close>. With no control matrix
  set, \<^verbatim>\<open>np.shape(None)\<close> is the empty tuple and its index 1 raises IndexError. After
  the padding or truncation the vector has \<^verbatim>\<open>controlMatrix.shape[1]\<close> entries, so
  \<^verbatim>\<open>np.dot\<close> is defined. The failed \<^verbatim>\<open>assert\<close> is caught by the bare
  \<^verbatim>\<open>except\<close>, which raises \<^verbatim>\<open>Exception\<close>.
\<close>

definition ac_pos_from_zernike :: "'arr ao_state \<Rightarrow> real list \<Rightarrow> nat \<Rightarrow> py_error + real list" where
  "ac_pos_from_zernike self applied_z_modes numActuators =
     (case controlMatrix self of
        None \<Rightarrow> Inl IndexError
      | Some cm \<Rightarrow>
          (let applied =
                 (if length applied_z_modes < shape1 cm
                  then applied_z_modes @ replicate (shape1 cm - length applied_z_modes) 0
                  else if length applied_z_modes > shape1 cm
                  then take (shape1 cm) applied_z_modes
                  else applied_z_modes);
               actuator_pos = dot cm applied
           in if length actuator_pos = numActuators then Inr actuator_pos
              else Inl DimensionMismatchError))"

text \<open>
  The specification's wording of the same step: pad on the right with zeros up to the
  mode dimension, then keep the first entries up to that dimension.
\<close>

definition spec_fit_modes :: "nat \<Rightarrow> real list \<Rightarrow> real list" where
  "spec_fit_modes M d = take M (d @ replicate (M - length d) 0)"

section \<open>Calibration: \<^verbatim>\<open>create_control_matrix\<close>\<close>

text \<open>
  \<^verbatim>\<open>np.where(pokeSteps[:, ii] != 0)[0]\<close>: the indices of the samples whose step on
  actuator \<open>ii\<close> is not zero, in ascending order.
\<close>

definition nonzero_samples :: "matrix \<Rightarrow> nat \<Rightarrow> nat list" where
  "nonzero_samples pokeSteps ii =
     filter (\<lambda>s. rows pokeSteps ! s ! ii \<noteq> 0) [0..<shape0 pokeSteps]"

text \<open>
  The inner loop over the modes \<open>kk\<close>. \<^verbatim>\<open>scipy.stats.linregress\<close> is a parameter: it
  returns (slope, intercept, r, p, stderr) or raises. The \<^verbatim>\<open>try\<close> around the call
  catches every \<^verbatim>\<open>Exception\<close> and only prints it, so \<^verbatim>\<open>slopes[kk]\<close> then keeps
  the value it had. Of the five arrays the tuple assignment fills, only \<^verbatim>\<open>slopes\<close>
  reaches \<^verbatim>\<open>C_mat\<close>; the others (and \<^verbatim>\<open>offsets\<close>, \<^verbatim>\<open>P_tests\<close>) are never read
  again and are left out.
\<close>

type_synonym linregress_fun =
  "real list \<Rightarrow> real list \<Rightarrow> py_error + (real \<times> real \<times> real \<times> real \<times> real)"

fun fit_modes :: "linregress_fun \<Rightarrow> real list \<Rightarrow> real list list \<Rightarrow> nat list \<Rightarrow> real list \<Rightarrow> real list" where
  "fit_modes linregress pokeSteps_trimmed zernikeModeAmp [] slopes = slopes"
| "fit_modes linregress pokeSteps_trimmed zernikeModeAmp (kk # ks) slopes =
     fit_modes linregress pokeSteps_trimmed zernikeModeAmp ks
       (case linregress pokeSteps_trimmed (map (\<lambda>r. r ! kk) zernikeModeAmp) of
          Inr (slope, rest) \<Rightarrow> slopes[kk := slope]
        | Inl e \<Rightarrow> slopes)"

text \<open>\<^verbatim>\<open>C_mat[:, ii] = slopes[:]\<close> on the rows of \<^verbatim>\<open>C_mat\<close>.\<close>

definition set_column :: "real list list \<Rightarrow> nat \<Rightarrow> real list \<Rightarrow> real list list" where
  "set_column C ii slopes = map2 (\<lambda>row s. row[ii := s]) C slopes"

text \<open>
  The loop over the actuators \<open>ii\<close>, from the list of indices still to visit, with the
  arrays \<^verbatim>\<open>slopes\<close> and \<^verbatim>\<open>C_mat\<close> it updates. The index errors numpy raises are
  branches: \<^verbatim>\<open>pupil_ac[ii]\<close> and \<^verbatim>\<open>pokeSteps[:, ii]\<close> out of range, and a selected
  sample index that \<^verbatim>\<open>zernikeAmps\<close> has no row for.
\<close>

fun actuator_loop ::
  "linregress_fun \<Rightarrow> matrix \<Rightarrow> matrix \<Rightarrow> real list \<Rightarrow> nat list \<Rightarrow> real list \<Rightarrow> real list list
     \<Rightarrow> py_error + real list list" where
  "actuator_loop linregress zernikeAmps pokeSteps pupil_ac [] slopes C_mat = Inr C_mat"
| "actuator_loop linregress zernikeAmps pokeSteps pupil_ac (ii # is) slopes C_mat =
     (if length pupil_ac \<le> ii then Inl IndexError
      else if pupil_ac ! ii = 1 then
        (if shape1 pokeSteps \<le> ii then Inl IndexError
         else
           (let idx = nonzero_samples pokeSteps ii;
                pokeSteps_trimmed = map (\<lambda>s. rows pokeSteps ! s ! ii) idx
            in if list_ex (\<lambda>s. shape0 zernikeAmps \<le> s) idx then Inl IndexError
               else
                 (let zernikeModeAmp = map (\<lambda>s. rows zernikeAmps ! s) idx
                  in if length pokeSteps_trimmed < 2
                     then Inl (InsufficientSamplesError (ii + 1))
                     else
                       (let slopes' = fit_modes linregress pokeSteps_trimmed zernikeModeAmp
                                        [0..<shape1 zernikeAmps] slopes
                        in actuator_loop linregress zernikeAmps pokeSteps pupil_ac is slopes'
                             (set_column C_mat ii slopes')))))
      else actuator_loop linregress zernikeAmps pokeSteps pupil_ac is slopes C_mat)"

text \<open>
  The value of \<^verbatim>\<open>C_mat\<close> (the sensitivity matrix) when the actuator loop ends.
  \<^verbatim>\<open>np.any(pupil_ac) == None\<close> holds only for the default \<^verbatim>\<open>pupil_ac=None\<close>,
  which becomes \<^verbatim>\<open>np.ones(numActuators)\<close>.
\<close>

definition C_mat_of ::
  "linregress_fun \<Rightarrow> matrix \<Rightarrow> matrix \<Rightarrow> nat \<Rightarrow> real list option \<Rightarrow> py_error + matrix" where
  "C_mat_of linregress zernikeAmps pokeSteps numActuators pupil_ac =
     (let pupil = (case pupil_ac of None \<Rightarrow> replicate numActuators 1 | Some p \<Rightarrow> p);
          noZernikeModes = shape1 zernikeAmps;
          slopes = replicate noZernikeModes 0;
          C_mat = replicate noZernikeModes (replicate numActuators 0)
      in case actuator_loop linregress zernikeAmps pokeSteps pupil [0..<numActuators] slopes C_mat of
           Inl e \<Rightarrow> Inl e
         | Inr C \<Rightarrow> Inr \<lparr>shape0 = noZernikeModes, shape1 = numActuators, rows = C\<rparr>)"

text \<open>
  \<^verbatim>\<open>create_control_matrix\<close>: the loop, then \<^verbatim>\<open>np.linalg.pinv(C_mat,
  rcond=threshold)\<close>, stored in \<^verbatim>\<open>self.controlMatrix\<close> and returned. numpy's
  pseudo-inverse (by singular value decomposition, dropping the singular values not
  above \<^verbatim>\<open>rcond\<close> times the largest) is a parameter.
\<close>

definition create_control_matrix ::
  "linregress_fun \<Rightarrow> (matrix \<Rightarrow> real \<Rightarrow> matrix) \<Rightarrow> 'arr ao_state \<Rightarrow> matrix \<Rightarrow> matrix \<Rightarrow> nat
     \<Rightarrow> real list option \<Rightarrow> real \<Rightarrow> py_error + (matrix \<times> 'arr ao_state)" where
  "create_control_matrix linregress pinv self zernikeAmps pokeSteps numActuators pupil_ac threshold =
     (case C_mat_of linregress zernikeAmps pokeSteps numActuators pupil_ac of
        Inl e \<Rightarrow> Inl e
      | Inr C_mat \<Rightarrow>
          (let cm = pinv C_mat threshold
           in Inr (cm, self\<lparr>controlMatrix := Some cm\<rparr>)))"

text \<open>
  What the calibration claims assume of their input: both arrays are well formed and
  have one row per sample, \<^verbatim>\<open>pokeSteps\<close> has one column per actuator, and a given
  pupil mask has one entry per actuator.
\<close>

definition calibration_input :: "matrix \<Rightarrow> matrix \<Rightarrow> nat \<Rightarrow> real list option \<Rightarrow> bool" where
  "calibration_input zernikeAmps pokeSteps numActuators pupil_ac =
     (wf_matrix zernikeAmps \<and> wf_matrix pokeSteps
      \<and> shape0 zernikeAmps = shape0 pokeSteps
      \<and> shape1 pokeSteps = numActuators
      \<and> (case pupil_ac of None \<Rightarrow> True | Some p \<Rightarrow> length p = numActuators))"

text \<open>Whether actuator \<open>ii\<close> is in the pupil: the test \<^verbatim>\<open>pupil_ac[ii] == 1\<close>.\<close>

definition in_pupil :: "nat \<Rightarrow> real list option \<Rightarrow> nat \<Rightarrow> bool" where
  "in_pupil numActuators pupil_ac ii =
     ((case pupil_ac of None \<Rightarrow> replicate numActuators 1 | Some p \<Rightarrow> p) ! ii = 1)"

text \<open>Column \<open>j\<close> of a matrix, \<^verbatim>\<open>m[:, j]\<close>.\<close>

definition column :: "matrix \<Rightarrow> nat \<Rightarrow> real list" where
  "column m j = map (\<lambda>r. r ! j) (rows m)"

text \<open>
  Stand-ins for the two library routines, used where a theorem is run on a concrete
  input. \<open>example_linregress\<close> is the least-squares slope and intercept
  (\<^verbatim>\<open>linregress\<close> fails when all abscissae are equal; the correlation, p-value and
  standard error it also returns are set to 0 here). \<open>example_pinv\<close> is the transpose:
  it has the shape behaviour of \<^verbatim>\<open>pinv\<close>, not its values.
\<close>

definition example_linregress :: linregress_fun where
  "example_linregress x y =
     (let n = real (length x);
          xm = sum_list x / n;
          ym = sum_list y / n;
          ssxm = sum_list (map (\<lambda>a. (a - xm) * (a - xm)) x);
          ssxym = sum_list (map2 (\<lambda>a b. (a - xm) * (b - ym)) x y)
      in if ssxm = 0 then Inl ValueError
         else Inr (ssxym / ssxm, ym - (ssxym / ssxm) * xm, 0, 0, 0))"

definition example_pinv :: "matrix \<Rightarrow> real \<Rightarrow> matrix" where
  "example_pinv m rcond =
     \<lparr>shape0 = shape1 m, shape1 = shape0 m,
      rows = map (\<lambda>j. map (\<lambda>r. r ! j) (rows m)) [0..<shape1 m]\<rparr>"

text \<open>
  A small calibration run: four samples, two modes, three actuators. Actuator 0 is
  stepped in the first two samples and actuator 2 in the last two; in
  \<open>example_pokeSteps_short\<close> actuator 1 is stepped once, in the second sample.
\<close>

definition example_zernikeAmps :: matrix where
  "example_zernikeAmps = \<lparr>shape0 = 4, shape1 = 2, rows = [[2, 1], [4, 2], [0, 3], [0, 6]]\<rparr>"

definition example_pokeSteps :: matrix where
  "example_pokeSteps =
     \<lparr>shape0 = 4, shape1 = 3, rows = [[1, 0, 0], [2, 0, 0], [0, 0, 1], [0, 0, 2]]\<rparr>"

definition example_pokeSteps_short :: matrix where
  "example_pokeSteps_short =
     \<lparr>shape0 = 4, shape1 = 3, rows = [[1, 0, 0], [2, 5, 0], [0, 0, 1], [0, 0, 2]]\<rparr>"

section \<open>Sensorless estimation\<close>

text \<open>
  The keys of the dictionary \<^verbatim>\<open>metric_function\<close>. The five functions it holds live in
  \<^verbatim>\<open>microAO.aoMetrics\<close>, outside this file; they enter the model as one parameter
  \<open>metric_fn\<close> from the metric's name and an image to the metric's value.
\<close>

definition metric_names :: "string list" where
  "metric_names = [''fourier'', ''contrast'', ''fourier_power'', ''gradient'', ''second_moment'']"

text \<open>The model curve \<^verbatim>\<open>gaussian_funcion\<close> handed to the fit.\<close>

definition gaussian_funcion :: "real \<Rightarrow> real \<Rightarrow> real \<Rightarrow> real \<Rightarrow> real \<Rightarrow> real" where
  "gaussian_funcion x offset normalising mean std_dev =
     (offset - normalising) + (normalising * exp ((- ((x - mean) ^ 2)) / (2 * std_dev ^ 2)))"

text \<open>
  \<^verbatim>\<open>scipy.optimize.curve_fit(f, xdata, ydata, bounds=(lower, upper))\<close> is a parameter.
  It returns the four fitted parameters (the covariance it also returns is never read)
  or raises; \<^verbatim>\<open>RuntimeError\<close> is what it raises when the least-squares iteration
  does not converge. A bound of \<open>None\<close> is an infinite one
  (\<^verbatim>\<open>np.NINF\<close> below, \<^verbatim>\<open>np.Inf\<close> above).
\<close>

type_synonym bounds = "real option list \<times> real option list"

type_synonym curve_fit_fun =
  "(real \<Rightarrow> real \<Rightarrow> real \<Rightarrow> real \<Rightarrow> real \<Rightarrow> real) \<Rightarrow> real list \<Rightarrow> real list \<Rightarrow> bounds
     \<Rightarrow> py_error + (real \<times> real \<times> real \<times> real)"

text \<open>
  \<^verbatim>\<open>np.mean\<close> and \<^verbatim>\<open>np.var\<close> (the population variance) of a non-empty vector,
  over the reals.
\<close>

definition np_mean :: "real list \<Rightarrow> real" where
  "np_mean xs = sum_list xs / real (length xs)"

definition np_var :: "real list \<Rightarrow> real" where
  "np_var xs = np_mean (map (\<lambda>x. (x - np_mean xs) ^ 2) xs)"

text \<open>
  What \<^verbatim>\<open>find_zernike_amp_sensorless\<close> returns: a float on the fitted path and on
  the zero fallback, a numpy array on the maximum fallback (the result of indexing
  \<^verbatim>\<open>zernike_amplitudes\<close> with a boolean mask, times \<^verbatim>\<open>-1.0\<close>).
\<close>

datatype amplitude = Scalar real | Array "real list"

text \<open>The bounds the source passes to the fit.\<close>

definition fit_bounds :: "real \<Rightarrow> real \<Rightarrow> bounds" where
  "fit_bounds z_l_bound z_u_bound =
     ([None, Some 0, Some z_l_bound, None], [None, None, Some z_u_bound, None])"

text \<open>
  \<^verbatim>\<open>find_zernike_amp_sensorless(self, image_stack, zernike_amplitudes)\<close>.
  \<^item> The metric is looked up in \<^verbatim>\<open>metric_function\<close> once per image: an unknown name
    raises KeyError at the first image.
  \<^item> \<^verbatim>\<open>np.min\<close> and \<^verbatim>\<open>np.max\<close> of an empty array raise ValueError.
  \<^item> Only \<^verbatim>\<open>RuntimeError\<close> is caught; any other exception of the fit propagates.
  \<^item> numpy decides the test
    \<^verbatim>\<open>max_from_mean_var >= 2*np.sqrt(np.var(metrics_measured))\<close> in double precision,
    where the rounding of the mean, the variance and the square root can tip a
    comparison whose two sides are equal, or nearly so, over the reals. The outcome of
    the test on the measured metrics is the parameter \<open>exceeds_2std\<close>.
  \<^item> On the maximum fallback a boolean mask of another length than
    \<^verbatim>\<open>zernike_amplitudes\<close> raises IndexError, and the final
    \<^verbatim>\<open>print("... %f" % amplitude_present)\<close> raises TypeError unless the array has
    exactly one entry.
\<close>

definition find_zernike_amp_sensorless ::
  "(string \<Rightarrow> 'img \<Rightarrow> real) \<Rightarrow> curve_fit_fun \<Rightarrow> (real list \<Rightarrow> bool) \<Rightarrow> 'arr ao_state \<Rightarrow> 'img list \<Rightarrow> real list
     \<Rightarrow> py_error + amplitude" where
  "find_zernike_amp_sensorless metric_fn curve_fit exceeds_2std self image_stack zernike_amplitudes =
     (if image_stack \<noteq> [] \<and> metric self \<notin> set metric_names then Inl KeyError
      else
        (let metrics_measured = map (metric_fn (metric self)) image_stack
         in if zernike_amplitudes = [] then Inl ValueError
            else
              (let lo = Min (set zernike_amplitudes);
                   hi = Max (set zernike_amplitudes);
                   z_l_bound = lo - (0.25 * (hi - lo));
                   z_u_bound = hi + (0.25 * (hi - lo))
               in case curve_fit gaussian_funcion zernike_amplitudes metrics_measured
                         (fit_bounds z_l_bound z_u_bound) of
                    Inr (offset, normalising, mean, std_dev) \<Rightarrow> Inr (Scalar (- 1 * mean))
                  | Inl RuntimeError \<Rightarrow>
                      (if metrics_measured = [] then Inl ValueError
                       else
                         (if exceeds_2std metrics_measured
                          then
                            (if length metrics_measured \<noteq> length zernike_amplitudes
                             then Inl IndexError
                             else
                               (let mean = map fst
                                      (filter (\<lambda>(a, m). m = Max (set metrics_measured))
                                         (zip zernike_amplitudes metrics_measured));
                                    amplitude_present = map (\<lambda>a. - 1 * a) mean
                                in if length amplitude_present = 1
                                   then Inr (Array amplitude_present)
                                   else Inl TypeError))
                          else Inr (Scalar (- 1 * 0))))
                  | Inl e \<Rightarrow> Inl e)))"

text \<open>
  numpy's reading of an integer index into an axis of length \<open>n\<close>: a negative index
  counts from the end, and an index outside \<open>-n .. n-1\<close> raises IndexError.
\<close>

definition py_index :: "nat \<Rightarrow> int \<Rightarrow> py_error + nat" where
  "py_index n i =
     (if 0 \<le> i \<and> i < int n then Inr (nat i)
      else if - int n \<le> i \<and> i < 0 then Inr (nat (i + int n))
      else Inl IndexError)"

text \<open>The slice \<^verbatim>\<open>xs[ii * numMes:(ii + 1) * numMes]\<close>; a slice never raises, it is cut at the end of \<open>xs\<close>.\<close>

definition block :: "nat \<Rightarrow> nat \<Rightarrow> 'a list \<Rightarrow> 'a list" where
  "block numMes ii xs = take numMes (drop (ii * numMes) xs)"

text \<open>
  \<^verbatim>\<open>coef[j] = amp\<close>: numpy stores a float, or the single entry of a one-entry array;
  an array of another size raises ValueError.
\<close>

definition item_of :: "amplitude \<Rightarrow> py_error + real" where
  "item_of amp = (case amp of Scalar v \<Rightarrow> Inr v | Array [v] \<Rightarrow> Inr v | Array _ \<Rightarrow> Inl ValueError)"

text \<open>The loop of \<^verbatim>\<open>get_zernike_modes_sensorless\<close> over the positions \<open>ii\<close> of \<^verbatim>\<open>nollZernike\<close>.\<close>

fun sensorless_loop ::
  "(string \<Rightarrow> 'img \<Rightarrow> real) \<Rightarrow> curve_fit_fun \<Rightarrow> (real list \<Rightarrow> bool) \<Rightarrow> 'arr ao_state \<Rightarrow> 'img list \<Rightarrow> matrix \<Rightarrow> int list
     \<Rightarrow> nat \<Rightarrow> nat list \<Rightarrow> real list \<Rightarrow> py_error + real list" where
  "sensorless_loop metric_fn curve_fit exceeds_2std self full_image_stack full_zernike_applied nollZernike numMes
     [] coef = Inr coef"
| "sensorless_loop metric_fn curve_fit exceeds_2std self full_image_stack full_zernike_applied nollZernike numMes
     (ii # is) coef =
     (let image_stack = block numMes ii full_image_stack
      in case py_index (shape1 full_zernike_applied) (nollZernike ! ii - 1) of
           Inl e \<Rightarrow> Inl e
         | Inr j \<Rightarrow>
             (let zernike_applied = map (\<lambda>r. r ! j) (block numMes ii (rows full_zernike_applied))
              in case find_zernike_amp_sensorless metric_fn curve_fit exceeds_2std self image_stack zernike_applied of
                   Inl e \<Rightarrow> Inl e
                 | Inr amp \<Rightarrow>
                     (case item_of amp of
                        Inl e \<Rightarrow> Inl e
                      | Inr v \<Rightarrow>
                          sensorless_loop metric_fn curve_fit exceeds_2std self full_image_stack
                            full_zernike_applied nollZernike numMes is (coef[j := v]))))"

text \<open>
  \<^verbatim>\<open>get_zernike_modes_sensorless(self, full_image_stack, full_zernike_applied,
  nollZernike)\<close>. The division \<^verbatim>\<open>shape[0] / shape[0]\<close> of two Python integers raises
  ZeroDivisionError for an empty \<^verbatim>\<open>nollZernike\<close>; \<^verbatim>\<open>int\<close> of the quotient of two
  natural numbers is their integer quotient.
\<close>

definition get_zernike_modes_sensorless ::
  "(string \<Rightarrow> 'img \<Rightarrow> real) \<Rightarrow> curve_fit_fun \<Rightarrow> (real list \<Rightarrow> bool) \<Rightarrow> 'arr ao_state \<Rightarrow> 'img list \<Rightarrow> matrix \<Rightarrow> int list
     \<Rightarrow> py_error + real list" where
  "get_zernike_modes_sensorless metric_fn curve_fit exceeds_2std self full_image_stack full_zernike_applied
     nollZernike =
     (if length nollZernike = 0 then Inl ZeroDivisionError
      else
        (let numMes = shape0 full_zernike_applied div length nollZernike;
             coef = replicate (shape1 full_zernike_applied) 0
         in sensorless_loop metric_fn curve_fit exceeds_2std self full_image_stack full_zernike_applied
              nollZernike numMes [0..<length nollZernike] coef))"

text \<open>
  The contract of \<^verbatim>\<open>curve_fit\<close> that the bound claim relies on: fitted parameters lie
  within the bounds they were fitted under.
\<close>

definition within_bounds :: "bounds \<Rightarrow> real \<times> real \<times> real \<times> real \<Rightarrow> bool" where
  "within_bounds b p =
     (case p of (offset, normalising, mean, std_dev) \<Rightarrow>
        list_all2 (\<lambda>l v. case l of None \<Rightarrow> True | Some l' \<Rightarrow> l' \<le> v) (fst b)
          [offset, normalising, mean, std_dev]
        \<and> list_all2 (\<lambda>u v. case u of None \<Rightarrow> True | Some u' \<Rightarrow> v \<le> u') (snd b)
          [offset, normalising, mean, std_dev])"

definition respects_bounds :: "curve_fit_fun \<Rightarrow> bool" where
  "respects_bounds curve_fit =
     (\<forall>f xs ys b p. curve_fit f xs ys b = Inr p \<longrightarrow> within_bounds b p)"


definition example_fit_peak :: curve_fit_fun where
  "example_fit_peak f xs ys b =
     (case b of
        ([None, Some a, Some l, None], [None, None, Some u, None]) \<Rightarrow>
          (if xs = [] \<or> length xs \<noteq> length ys \<or> u \<le> l then Inl ValueError
           else Inr (0, max a 1,
                     max l (min u (fst (hd (filter (\<lambda>(x, y). y = Max (set ys)) (zip xs ys))))), 1))
      | _ \<Rightarrow> Inl ValueError)"

definition example_measure :: "string \<Rightarrow> real \<Rightarrow> real" where
  "example_measure name img = img"

text \<open>
  A stand-in for the outcome of the two-standard-deviations test: the comparison over
  the reals. It is numpy's outcome wherever the double-precision computation is exact,
  or the two sides differ by more than its rounding error.
\<close>

definition example_exceeds_2std :: "real list \<Rightarrow> bool" where
  "example_exceeds_2std ms = (Max (set ms) - np_mean ms \<ge> 2 * sqrt (np_var ms))"

text \<open>
  A small multi-mode run: four images, given by their metric values, and three mode
  columns. The first two images were taken with mode 3 applied at amplitudes 1 and 2, the
  last two with mode 1 applied at amplitudes -1 and 1.
\<close>

definition example_applied :: matrix where
  "example_applied =
     \<lparr>shape0 = 4, shape1 = 3, rows = [[0, 0, 1], [0, 0, 2], [- 1, 0, 0], [1, 0, 0]]\<rparr>"

section \<open>Binning: \<^verbatim>\<open>bin_ndarray\<close>\<close>

text \<open>
  A numpy array of any number of dimensions: its \<^verbatim>\<open>shape\<close> and its entries in
  row-major (C) order, as \<^verbatim>\<open>reshape\<close> reads them. A well-formed array has as many
  entries as the product of its shape.
\<close>

record ndarray =
  shape :: "nat list"
  data :: "real list"

definition wf_ndarray :: "ndarray \<Rightarrow> bool" where
  "wf_ndarray a = (length (data a) = prod_list (shape a))"

text \<open>\<^verbatim>\<open>str.lower\<close>, on the ASCII letters.\<close>

definition lower_char :: "char \<Rightarrow> char" where
  "lower_char c =
     (if 65 \<le> (of_char c :: nat) \<and> (of_char c :: nat) \<le> 90 then char_of (of_char c + 32 :: nat)
      else c)"

definition lower :: "string \<Rightarrow> string" where
  "lower s = map lower_char s"

text \<open>
  \<^verbatim>\<open>ndarray.sum(axis)\<close> and \<^verbatim>\<open>ndarray.mean(axis)\<close> along the axis at position \<open>k\<close>
  (counted from the front). With \<open>outer\<close> the product of the dimensions before the
  axis, \<open>n\<close> its length and \<open>inner\<close> the product of those after it, entry
  \<open>(u, j, q)\<close> of the input is at offset \<open>(u * n + j) * inner + q\<close>. The mean along an
  axis of length 0 is NaN in numpy (a warning, no exception); the model's value there
  is \<open>0\<close>, and no theorem below uses it.
\<close>

definition reduce_axis :: "string \<Rightarrow> nat \<Rightarrow> ndarray \<Rightarrow> ndarray" where
  "reduce_axis operation k a =
     (let outer = prod_list (take k (shape a));
          n = shape a ! k;
          inner = prod_list (drop (k + 1) (shape a));
          along = (\<lambda>u q. map (\<lambda>j. data a ! ((u * n + j) * inner + q)) [0..<n]);
          f = (\<lambda>ys. if operation = ''sum'' then sum_list ys else sum_list ys / real n)
      in \<lparr>shape = take k (shape a) @ drop (k + 1) (shape a),
          data = concat (map (\<lambda>u. map (\<lambda>q. f (along u q)) [0..<inner]) [0..<outer])\<rparr>)"

text \<open>
  The loop \<^verbatim>\<open>for i in range(len(new_shape)): ndarray = op(-1*(i+1))\<close>. The axis
  \<open>-(i + 1)\<close> is axis \<open>ndim - (i + 1)\<close> from the front; numpy raises AxisError, a
  ValueError, when the array has fewer than \<open>i + 1\<close> dimensions.
\<close>

fun bin_loop :: "string \<Rightarrow> nat list \<Rightarrow> ndarray \<Rightarrow> py_error + ndarray" where
  "bin_loop operation [] a = Inr a"
| "bin_loop operation (i # is) a =
     (if length (shape a) < i + 1 then Inl ValueError
      else bin_loop operation is (reduce_axis operation (length (shape a) - (i + 1)) a))"

text \<open>
  \<^verbatim>\<open>bin_ndarray(self, ndarray, new_shape, operation='mean')\<close>. The floor division
  \<^verbatim>\<open>c//d\<close> raises ZeroDivisionError for a zero target dimension, and \<^verbatim>\<open>reshape\<close>
  raises ValueError unless the new shape has as many entries as the array.
\<close>

definition bin_ndarray :: "ndarray \<Rightarrow> nat list \<Rightarrow> string \<Rightarrow> py_error + ndarray" where
  "bin_ndarray a new_shape operation =
     (let operation = lower operation
      in if \<not> (operation \<in> set [''sum'', ''mean'']) then Inl ValueError
         else if length (shape a) \<noteq> length new_shape then Inl ValueError
         else if 0 \<in> set new_shape then Inl ZeroDivisionError
         else
           (let compression_pairs = map2 (\<lambda>d c. (d, c div d)) new_shape (shape a);
                flattened = concat (map (\<lambda>(d, b). [d, b]) compression_pairs)
            in if prod_list flattened \<noteq> length (data a) then Inl ValueError
               else bin_loop operation [0..<length new_shape]
                      \<lparr>shape = flattened, data = data a\<rparr>))"

text \<open>
  The claim's wording for a two-dimensional array with \<open>C\<close> columns: the arithmetic mean
  of the block of \<open>b0\<close> rows and \<open>b1\<close> columns that output entry \<open>(i, j)\<close> stands for.
\<close>

definition block_mean :: "real list \<Rightarrow> nat \<Rightarrow> nat \<Rightarrow> nat \<Rightarrow> nat \<Rightarrow> nat \<Rightarrow> real" where
  "block_mean xs C b0 b1 i j =
     (\<Sum>p\<leftarrow>[0..<b0]. \<Sum>q\<leftarrow>[0..<b1]. xs ! ((i * b0 + p) * C + (j * b1 + q))) / real (b0 * b1)"

section \<open>Modal projection: \<^verbatim>\<open>get_zernike_modes\<close>\<close>

text \<open>
  The loop \<^verbatim>\<open>while original_dim % resize_dim is not 0: resize_dim -= 1\<close>. Both
  operands are Python integers: \<^verbatim>\<open>%\<close> raises ZeroDivisionError for a zero divisor and
  otherwise has the sign of the divisor, as \<open>mod\<close> on \<open>int\<close> has; CPython keeps one
  object for the integer 0, so \<^verbatim>\<open>is not 0\<close> is \<open>\<noteq> 0\<close>. For a negative
  \<^verbatim>\<open>resize_dim\<close> below \<^verbatim>\<open>-original_dim\<close> the loop does not end.
\<close>

partial_function (option) resize_loop :: "int \<Rightarrow> int \<Rightarrow> (py_error + int) option" where
  "resize_loop original_dim resize_dim =
     (if resize_dim = 0 then Some (Inl ZeroDivisionError)
      else if original_dim mod resize_dim \<noteq> 0 then resize_loop original_dim (resize_dim - 1)
      else Some (Inr resize_dim))"

declare resize_loop.simps [code]

text \<open>
  \<^verbatim>\<open>aotools.zernike(j, N)\<close>, the \<open>N x N\<close> array of the basis function of mode \<open>j\<close>, is
  a parameter: \<open>zernike j N r c\<close> is its entry in row \<open>r\<close> and column \<open>c\<close>.
\<close>

definition zernike_array :: "(nat \<Rightarrow> nat \<Rightarrow> nat \<Rightarrow> nat \<Rightarrow> real) \<Rightarrow> nat \<Rightarrow> nat \<Rightarrow> ndarray" where
  "zernike_array zernike j N =
     \<lparr>shape = [N, N], data = concat (map (\<lambda>r. map (\<lambda>c. zernike j N r c) [0..<N]) [0..<N])\<rparr>"

definition count_nonzero :: "ndarray \<Rightarrow> nat" where
  "count_nonzero a = length (filter (\<lambda>x. x \<noteq> 0) (data a))"

text \<open>
  The product \<^verbatim>\<open>a * b\<close> of two arrays of one shape, entry by entry. (numpy also
  multiplies arrays of different shapes when they broadcast; the two operands of
  \<^verbatim>\<open>get_zernike_modes\<close> have the same shape, and other shapes raise here.)
\<close>

definition multiply :: "ndarray \<Rightarrow> ndarray \<Rightarrow> py_error + ndarray" where
  "multiply a b =
     (if shape a = shape b then Inr \<lparr>shape = shape a, data = map2 (*) (data a) (data b)\<rparr>
      else Inl ValueError)"

text \<open>
  \<^verbatim>\<open>scipy.integrate.trapz(y)\<close> with its defaults \<^verbatim>\<open>dx=1.0, axis=-1\<close>: along the last
  axis, the sum of \<open>1.0 * (y[k + 1] + y[k]) / 2.0\<close>. A zero-dimensional argument raises
  IndexError.
\<close>

definition trapz_list :: "real list \<Rightarrow> real" where
  "trapz_list ys = (\<Sum>k\<leftarrow>[0..<length ys - 1]. 1 * (ys ! (k + 1) + ys ! k) / 2)"

definition trapz :: "ndarray \<Rightarrow> py_error + ndarray" where
  "trapz y =
     (if shape y = [] then Inl IndexError
      else
        (let n = last (shape y);
             outer = prod_list (butlast (shape y))
         in Inr \<lparr>shape = butlast (shape y),
                 data = map (\<lambda>u. trapz_list (take n (drop (u * n) (data y)))) [0..<outer]\<rparr>))"

text \<open>
  One pass of the loop over the modes: \<^verbatim>\<open>trapz(trapz(image_resize * aotools.zernike(i,
  resize_dim))) / num_pixels\<close>. Dividing a float by a zero \<^verbatim>\<open>num_pixels\<close> gives an
  infinity or NaN in numpy, not an exception; the model's quotient is then \<open>0\<close>, and
  the theorem below assumes a nonzero count.
\<close>

definition zernike_coefficient ::
  "(nat \<Rightarrow> nat \<Rightarrow> nat \<Rightarrow> nat \<Rightarrow> real) \<Rightarrow> ndarray \<Rightarrow> nat \<Rightarrow> nat \<Rightarrow> nat \<Rightarrow> py_error + real" where
  "zernike_coefficient zernike image_resize resize_dim num_pixels i =
     (case multiply image_resize (zernike_array zernike i resize_dim) of
        Inl e \<Rightarrow> Inl e
      | Inr product \<Rightarrow>
          (case trapz product of
             Inl e \<Rightarrow> Inl e
           | Inr intermediate \<Rightarrow>
               (case trapz intermediate of
                  Inl e \<Rightarrow> Inl e
                | Inr integral \<Rightarrow> Inr (data integral ! 0 / real num_pixels))))"

text \<open>The list \<^verbatim>\<open>zcoeffs_dbl\<close>, appended to mode by mode; the first error ends the loop.\<close>

fun zcoeffs_dbl :: "(nat \<Rightarrow> py_error + real) \<Rightarrow> nat list \<Rightarrow> py_error + real list" where
  "zcoeffs_dbl f [] = Inr []"
| "zcoeffs_dbl f (i # is) =
     (case f i of
        Inl e \<Rightarrow> Inl e
      | Inr c \<Rightarrow> (case zcoeffs_dbl f is of Inl e \<Rightarrow> Inl e | Inr cs \<Rightarrow> Inr (c # cs)))"

text \<open>
  \<^verbatim>\<open>get_zernike_modes(self, image_unwrap, noZernikeModes, resize_dim=128)\<close>. The result
  is \<open>None\<close> when the resize loop does not end.
  \<^item> When the loop ends, \<^verbatim>\<open>resize_dim\<close> divides \<^verbatim>\<open>original_dim\<close>, so the quotient
    \<^verbatim>\<open>original_dim/resize_dim\<close> that \<^verbatim>\<open>np.round\<close> receives is a whole number and
    every rounding mode returns it.
  \<^item> \<^verbatim>\<open>bin_ndarray\<close> with a negative \<^verbatim>\<open>resize_dim\<close> fails in \<^verbatim>\<open>reshape\<close> (or
    earlier, on the number of dimensions) with ValueError.
\<close>

definition get_zernike_modes ::
  "(nat \<Rightarrow> nat \<Rightarrow> nat \<Rightarrow> nat \<Rightarrow> real) \<Rightarrow> ndarray \<Rightarrow> nat \<Rightarrow> int \<Rightarrow> (py_error + real list) option" where
  "get_zernike_modes zernike image_unwrap noZernikeModes resize_dim =
     (case shape image_unwrap of
        [] \<Rightarrow> Some (Inl IndexError)
      | original_dim # _ \<Rightarrow>
          (case resize_loop (int original_dim) resize_dim of
             None \<Rightarrow> None
           | Some (Inl e) \<Rightarrow> Some (Inl e)
           | Some (Inr resize_dim1) \<Rightarrow>
               (let resize_dim2 =
                      (if real_of_int resize_dim1 < real original_dim / real_of_int resize_dim1
                       then round (real original_dim / real_of_int resize_dim1)
                       else resize_dim1)
                in Some
                     (if resize_dim2 < 0 then Inl ValueError
                      else
                        (case bin_ndarray image_unwrap [nat resize_dim2, nat resize_dim2] ''mean'' of
                           Inl e \<Rightarrow> Inl e
                         | Inr image_resize \<Rightarrow>
                             (let num_pixels =
                                    count_nonzero (zernike_array zernike 1 (nat resize_dim2))
                              in zcoeffs_dbl
                                   (zernike_coefficient zernike image_resize (nat resize_dim2)
                                      num_pixels)
                                   [1..<noZernikeModes + 1]))))))"

text \<open>
  The specification's wording of the working resolution: the largest divisor of the side
  \<open>N\<close> that is at most the target, replaced by \<open>N\<close> divided by it when it is smaller
  than that quotient.
\<close>

definition largest_divisor_upto :: "nat \<Rightarrow> nat \<Rightarrow> nat" where
  "largest_divisor_upto N t = Max (set (filter (\<lambda>d. d dvd N) [1..<t + 1]))"

definition spec_resolution :: "nat \<Rightarrow> nat \<Rightarrow> nat" where
  "spec_resolution N t =
     (let d = largest_divisor_upto N t in if d < N div d then N div d else d)"

text \<open>
  The specification's wording of a coefficient at resolution \<open>r\<close>: the trapezoidal
  integral over the rows of the trapezoidal integrals along each row of the block-mean
  binned map times the basis function of mode \<open>i\<close>, divided by the number of nonzero
  entries of the basis function of mode 1.
\<close>

definition spec_coefficient ::
  "(nat \<Rightarrow> nat \<Rightarrow> nat \<Rightarrow> nat \<Rightarrow> real) \<Rightarrow> ndarray \<Rightarrow> nat \<Rightarrow> nat \<Rightarrow> nat \<Rightarrow> real" where
  "spec_coefficient zernike image_unwrap N r i =
     trapz_list
       (map (\<lambda>row. trapz_list
               (map (\<lambda>col. block_mean (data image_unwrap) N (N div r) (N div r) row col
                             * zernike i r row col) [0..<r])) [0..<r])
     / real (length (filter (\<lambda>x. x \<noteq> 0)
                (concat (map (\<lambda>row. map (\<lambda>col. zernike 1 r row col) [0..<r]) [0..<r]))))"

text \<open>
  A stand-in for the basis, used where a theorem is run on a concrete input: mode 1 is
  the constant 1, mode 2 the column coordinate and every other mode the row coordinate,
  both measured from the centre of the grid.
\<close>

definition example_zernike :: "nat \<Rightarrow> nat \<Rightarrow> nat \<Rightarrow> nat \<Rightarrow> real" where
  "example_zernike j N r c =
     (if j = 1 then 1
      else if j = 2 then real c - (real N - 1) / 2
      else real r - (real N - 1) / 2)"

section \<open>Filter construction: \<^verbatim>\<open>make_fft_filter\<close>\<close>

text \<open>The shifted spectrum \<^verbatim>\<open>fftarray\<close>: a two-dimensional array of complex numbers.\<close>

record cmatrix =
  cshape0 :: nat
  cshape1 :: nat
  crows :: "complex list list"

text \<open>
  Python's reading of a slice bound on an axis of length \<open>n\<close>: a negative bound counts
  from the end, and every bound is then cut to \<open>0 .. n\<close>. The slice
  \<^verbatim>\<open>xs[start:stop]\<close> holds the entries from the first bound up to the second, none
  when the second is not above the first; it never raises.
\<close>

definition py_bound :: "nat \<Rightarrow> int \<Rightarrow> nat" where
  "py_bound n i = (if i < 0 then nat (max (i + int n) 0) else min (nat i) n)"

definition py_slice :: "'a list \<Rightarrow> int \<Rightarrow> int \<Rightarrow> 'a list" where
  "py_slice xs start stop =
     take (py_bound (length xs) stop - py_bound (length xs) start)
       (drop (py_bound (length xs) start) xs)"

definition py_slice_len :: "nat \<Rightarrow> int \<Rightarrow> int \<Rightarrow> nat" where
  "py_slice_len n start stop = py_bound n stop - py_bound n start"

text \<open>
  The side of the refinement window: 100 by default, an odd \<^verbatim>\<open>window_dim\<close> is made
  even by adding 1.
\<close>

definition window_side :: "int option \<Rightarrow> int" where
  "window_side window_dim =
     (case window_dim of None \<Rightarrow> 100 | Some w \<Rightarrow> if w mod 2 \<noteq> 0 then w + 1 else w)"

text \<open>
  The body of the \<^verbatim>\<open>try\<close>: \<^verbatim>\<open>window[:, :] = np.log(abs(fftarray[r0:r1, c0:c1]))\<close>
  with \<open>r0, r1 = maxpoint[1] \<mp> window_dim // 2\<close> and
  \<open>c0, c1 = maxpoint[0] \<mp> window_dim // 2\<close>. The slices never raise. The assignment
  into the \<open>w x w\<close> window broadcasts: it succeeds when each dimension of the slice is
  \<open>w\<close> or 1 (a dimension of 1 is repeated \<open>w\<close> times) and raises ValueError
  otherwise, which the \<^verbatim>\<open>except\<close> turns into the stripes-too-fine exception.
  (Where an entry is 0, numpy's \<^verbatim>\<open>log\<close> gives \<open>-inf\<close> with a warning; HOL's
  \<open>ln 0\<close> is some real.)
\<close>

definition window_values :: "cmatrix \<Rightarrow> int \<times> int \<Rightarrow> nat \<Rightarrow> py_error + real list list" where
  "window_values fftarray maxpoint w =
     (let h = int w div 2;
          r0 = snd maxpoint - h; r1 = snd maxpoint + h;
          c0 = fst maxpoint - h; c1 = fst maxpoint + h;
          p = py_slice_len (cshape0 fftarray) r0 r1;
          q = py_slice_len (cshape1 fftarray) c0 c1;
          cut = map (\<lambda>row. py_slice row c0 c1) (py_slice (crows fftarray) r0 r1);
          logs = map (map (\<lambda>z. ln (cmod z))) cut
      in if (p = w \<or> p = 1) \<and> (q = w \<or> q = 1)
         then Inr (map (\<lambda>row. if q = w then row else replicate w (row ! 0))
                     (if p = w then logs else replicate w (logs ! 0)))
         else Inl FilterConstructionError)"

text \<open>
  The ten passes of the refinement loop, counted down. \<open>otsu_centroid\<close> is a
  parameter for the lines between the \<^verbatim>\<open>try\<close> and the update of \<^verbatim>\<open>maxpoint\<close>:
  \<^verbatim>\<open>threshold_otsu\<close>, the thresholded window, \<^verbatim>\<open>center_of_mass\<close>, \<^verbatim>\<open>np.round\<close>
  and the two \<^verbatim>\<open>int(...)\<close> conversions. It returns
  \<open>(int(CoM[0, 0]), int(CoM[0, 1]))\<close> or raises (ValueError, for instance, when the
  centre of mass is NaN); what it raises is outside the \<^verbatim>\<open>try\<close> and propagates.
\<close>

fun refine_loop ::
  "(real list list \<Rightarrow> py_error + (int \<times> int)) \<Rightarrow> cmatrix \<Rightarrow> nat \<Rightarrow> nat \<Rightarrow> int \<times> int
     \<Rightarrow> py_error + (int \<times> int)" where
  "refine_loop otsu_centroid fftarray w 0 maxpoint = Inr maxpoint"
| "refine_loop otsu_centroid fftarray w (Suc k) maxpoint =
     (case window_values fftarray maxpoint w of
        Inl e \<Rightarrow> Inl e
      | Inr window \<Rightarrow>
          (case otsu_centroid window of
             Inl e \<Rightarrow> Inl e
           | Inr (com0, com1) \<Rightarrow>
               refine_loop otsu_centroid fftarray w k
                 (fst maxpoint - int w div 2 + com1, snd maxpoint - int w div 2 + com0)))"

text \<open>
  \<^verbatim>\<open>make_fft_filter(self, image, region, window_dim, mask_di)\<close>. Parameters stand
  for the numerical stages: \<open>spectrum_of\<close> for the windowed, transformed and shifted
  image with its centre blanked (up to \<^verbatim>\<open>fftarray[...] = 0.00001+0j\<close>), \<open>argmax\<close> for
  \<^verbatim>\<open>np.argmax\<close> (ValueError on an empty array), \<open>place_mask\<close> for the construction
  of the filter around the refined peak. \<^verbatim>\<open>np.zeros\<close> raises ValueError for a negative
  window side.
\<close>

definition make_fft_filter ::
  "('img \<Rightarrow> int option \<Rightarrow> cmatrix) \<Rightarrow> (cmatrix \<Rightarrow> nat)
     \<Rightarrow> (real list list \<Rightarrow> py_error + (int \<times> int))
     \<Rightarrow> (cmatrix \<Rightarrow> int \<times> int \<Rightarrow> int option \<Rightarrow> 'arr)
     \<Rightarrow> 'arr ao_state \<Rightarrow> 'img \<Rightarrow> int option \<Rightarrow> int option \<Rightarrow> int option
     \<Rightarrow> py_error + ('arr \<times> 'arr ao_state)" where
  "make_fft_filter spectrum_of argmax otsu_centroid place_mask self img region window_dim mask_di =
     (let fftarray = spectrum_of img region
      in if cshape0 fftarray * cshape1 fftarray = 0 then Inl ValueError
         else
           (let test_point = argmax fftarray;
                maxpoint = (int (test_point mod cshape1 fftarray),
                            int (test_point div cshape1 fftarray));
                w = window_side window_dim
            in if w < 0 then Inl ValueError
               else
                 (case refine_loop otsu_centroid fftarray (nat w) 10 maxpoint of
                    Inl e \<Rightarrow> Inl e
                  | Inr refined \<Rightarrow>
                      (let f = place_mask fftarray refined mask_di
                       in Inr (f, self\<lparr>fft_filter := Some f\<rparr>)))))"

text \<open>
  A spectrum of 99 x 99 entries, all 1 but for a peak of 2 in row 20 and column 10, and
  stand-ins for the library stages: the centroid stage fails with ValueError on a
  window of one value (no threshold separates it, and its centre of mass is NaN).
\<close>

definition example_spectrum :: cmatrix where
  "example_spectrum =
     \<lparr>cshape0 = 99, cshape1 = 99,
      crows = map (\<lambda>r. map (\<lambda>c. if r = 20 \<and> c = 10 then 2 else 1) [0..<99]) [0..<99]\<rparr>"

definition example_otsu_centroid :: "real list list \<Rightarrow> py_error + (int \<times> int)" where
  "example_otsu_centroid window =
     (if list_all (\<lambda>row. list_all (\<lambda>v. v = window ! 0 ! 0) row) window then Inl ValueError
      else Inr (int (length window div 2), int (length window div 2)))"

section \<open>Phase extraction: \<^verbatim>\<open>unwrap_interferometry\<close>\<close>

definition set_mask :: "'arr ao_state \<Rightarrow> 'arr \<Rightarrow> 'arr ao_state" where
  "set_mask self m = self\<lparr>mask := Some m\<rparr>"

definition set_fft_filter :: "'arr ao_state \<Rightarrow> 'arr \<Rightarrow> 'arr ao_state" where
  "set_fft_filter self f = self\<lparr>fft_filter := Some f\<rparr>"

text \<open>
  \<^verbatim>\<open>unwrap_interferometry(self, image)\<close>. The numerical stages are parameters on an
  abstract array type: \<open>windowed_spectrum\<close> for the windowed and transformed image,
  \<open>wrapped_phase\<close> for the filtering, recentring, inverse transform and arctangent,
  \<open>array_product\<close> for the product of two arrays, \<open>unwrap_phase\<close> for skimage's routine.
  The source tests neither \<^verbatim>\<open>self.fft_filter\<close> nor \<^verbatim>\<open>self.mask\<close>: a \<^verbatim>\<open>None\<close>
  reaches \<^verbatim>\<open>np.fft.fftshift\<close> and the product with the spectrum, or the product with
  the wrapped phase, and numpy raises there.
\<close>

definition unwrap_interferometry ::
  "('img \<Rightarrow> 'arr) \<Rightarrow> ('arr \<Rightarrow> 'arr \<Rightarrow> 'arr) \<Rightarrow> ('arr \<Rightarrow> 'arr \<Rightarrow> 'arr) \<Rightarrow> ('arr \<Rightarrow> 'arr)
     \<Rightarrow> 'arr ao_state \<Rightarrow> 'img \<Rightarrow> py_error + 'arr" where
  "unwrap_interferometry windowed_spectrum wrapped_phase array_product unwrap_phase self img =
     (let fftarray = windowed_spectrum img
      in case fft_filter self of
           None \<Rightarrow> Inl NoneOperandError
         | Some f \<Rightarrow>
             (let phaseorder1 = wrapped_phase f fftarray
              in case mask self of
                   None \<Rightarrow> Inl NoneOperandError
                 | Some m \<Rightarrow>
                     (let phaseorder1mask = array_product phaseorder1 m;
                          phaseorder1unwrap = unwrap_phase phaseorder1mask
                      in Inr (array_product phaseorder1unwrap m))))"

section \<open>Theorems\<close>

lemma length_dot: "length (dot m v) = length (rows m)"
  by (simp add: dot_def)

lemma length_spec_fit_modes: "length (spec_fit_modes M d) = M"
  by (simp add: spec_fit_modes_def)

text \<open>
  C2. For a stored control matrix of shape A x M and any desired-modes vector d,
  \<^verbatim>\<open>ac_pos_from_zernike\<close> pads d with zeros on the right to length M when it is
  shorter, truncates it to its first M entries when it is longer, and returns the
  product of the control matrix with that vector, which has A entries; the call
  returns exactly when A equals the \<^verbatim>\<open>numActuators\<close> argument, and fails with
  the dimension mismatch error otherwise.
\<close>

theorem ac_pos_from_zernike_synthesize:
  assumes "controlMatrix self = Some cm" and "wf_matrix cm"
  shows "ac_pos_from_zernike self d numActuators =
           (if shape0 cm = numActuators then Inr (dot cm (spec_fit_modes (shape1 cm) d))
            else Inl DimensionMismatchError)
         \<and> length (spec_fit_modes (shape1 cm) d) = shape1 cm
         \<and> length (dot cm (spec_fit_modes (shape1 cm) d)) = shape0 cm
         \<and> (length d < shape1 cm \<longrightarrow>
                spec_fit_modes (shape1 cm) d = d @ replicate (shape1 cm - length d) 0)
         \<and> (length d > shape1 cm \<longrightarrow> spec_fit_modes (shape1 cm) d = take (shape1 cm) d)
         \<and> (length d = shape1 cm \<longrightarrow> spec_fit_modes (shape1 cm) d = d)
         \<and> (\<forall>r. ac_pos_from_zernike self d numActuators = Inr r \<longrightarrow> length r = numActuators)"
proof -
  have fit: "(if length d < shape1 cm then d @ replicate (shape1 cm - length d) 0
              else if length d > shape1 cm then take (shape1 cm) d else d)
             = spec_fit_modes (shape1 cm) d"
    by (simp add: spec_fit_modes_def)
  have len: "length (dot cm v) = shape0 cm" for v
    using assms(2) by (simp add: length_dot wf_matrix_def)
  have run: "ac_pos_from_zernike self d numActuators =
           (if shape0 cm = numActuators then Inr (dot cm (spec_fit_modes (shape1 cm) d))
            else Inl DimensionMismatchError)"
    unfolding ac_pos_from_zernike_def using assms(1) fit len by (simp add: Let_def)
  have ret: "\<forall>r. ac_pos_from_zernike self d numActuators = Inr r \<longrightarrow> length r = numActuators"
    using run len by (auto split: if_splits)
  have pad: "length d < shape1 cm \<longrightarrow>
           spec_fit_modes (shape1 cm) d = d @ replicate (shape1 cm - length d) 0"
    by (simp add: spec_fit_modes_def)
  have cut: "length d > shape1 cm \<longrightarrow> spec_fit_modes (shape1 cm) d = take (shape1 cm) d"
    by (simp add: spec_fit_modes_def)
  have same: "length d = shape1 cm \<longrightarrow> spec_fit_modes (shape1 cm) d = d"
    by (simp add: spec_fit_modes_def)
  show ?thesis
    using run ret pad cut same len length_spec_fit_modes by blast
qed

theorem ac_pos_from_zernike_synthesize_witness:
  "ac_pos_from_zernike
     \<lparr>mask = (None :: unit option), fft_filter = None,
      controlMatrix = Some \<lparr>shape0 = 2, shape1 = 3, rows = [[1, 2, 3], [4, 5, 6]]\<rparr>,
      metric = ''fourier''\<rparr> [1, 1] 2 = Inr [3, 9]
   \<and> ac_pos_from_zernike
     \<lparr>mask = (None :: unit option), fft_filter = None,
      controlMatrix = Some \<lparr>shape0 = 2, shape1 = 3, rows = [[1, 2, 3], [4, 5, 6]]\<rparr>,
      metric = ''fourier''\<rparr> [1, 1] 5 = Inl DimensionMismatchError"
proof -
  define cm where "cm = \<lparr>shape0 = 2, shape1 = 3, rows = [[1, 2, 3], [4, 5, 6 :: real]]\<rparr>"
  define st where "st = \<lparr>mask = (None :: unit option), fft_filter = None,
      controlMatrix = Some cm, metric = ''fourier''\<rparr>"
  have h1: "controlMatrix st = Some cm" by (simp add: st_def)
  have h2: "wf_matrix cm" by (simp add: cm_def wf_matrix_def)
  have fit: "spec_fit_modes (shape1 cm) [1, 1] = [1, 1, 0]"
    by (simp add: cm_def spec_fit_modes_def numeral_3_eq_3)
  have prod: "dot cm [1, 1, 0] = [3, 9]"
    by (simp add: cm_def dot_def)
  have a: "ac_pos_from_zernike st [1, 1] 2 = Inr [3, 9]"
    using ac_pos_from_zernike_synthesize [OF h1 h2, of "[1, 1]" 2] fit prod
    by (simp add: cm_def)
  have b: "ac_pos_from_zernike st [1, 1] 5 = Inl DimensionMismatchError"
    using ac_pos_from_zernike_synthesize [OF h1 h2, of "[1, 1]" 5]
    by (simp add: cm_def)
  show ?thesis using a b unfolding st_def cm_def by simp
qed

subsection \<open>Calibration\<close>

lemma length_fit_modes:
  "length (fit_modes linregress x z ks slopes) = length slopes"
  by (induction ks arbitrary: slopes) (auto split: sum.splits prod.splits)

lemma length_set_column:
  "length s = length C \<Longrightarrow> length (set_column C ii s) = length C"
  by (simp add: set_column_def)

lemma nth_set_column:
  "length s = length C \<Longrightarrow> k < length C \<Longrightarrow> set_column C ii s ! k = (C ! k)[ii := s ! k]"
  by (simp add: set_column_def)

lemma no_bad_sample:
  "shape0 zernikeAmps = shape0 pokeSteps \<Longrightarrow>
     \<not> list_ex (\<lambda>s. shape0 zernikeAmps \<le> s) (nonzero_samples pokeSteps ii)"
  by (auto simp: nonzero_samples_def list_ex_iff)

lemma actuator_loop_ok:
  assumes "\<forall>ii\<in>set is. ii < length pupil \<and> ii < shape1 pokeSteps
             \<and> (pupil ! ii = 1 \<longrightarrow> 2 \<le> length (nonzero_samples pokeSteps ii))"
      and "shape0 zernikeAmps = shape0 pokeSteps"
      and "length slopes = shape1 zernikeAmps" and "length C = shape1 zernikeAmps"
  shows "\<exists>C'. actuator_loop linregress zernikeAmps pokeSteps pupil is slopes C = Inr C'
           \<and> length C' = shape1 zernikeAmps
           \<and> (\<forall>k<shape1 zernikeAmps. length (C' ! k) = length (C ! k))
           \<and> (\<forall>j. j \<notin> set is \<or> pupil ! j \<noteq> 1 \<longrightarrow>
                  (\<forall>k<shape1 zernikeAmps. C' ! k ! j = C ! k ! j))"
  using assms
proof (induction "is" arbitrary: slopes C)
  case Nil
  then show ?case by simp
next
  case (Cons ii "is")
  have ii: "ii < length pupil" "ii < shape1 pokeSteps"
    using Cons.prems(1) by auto
  have rest: "\<forall>ii\<in>set is. ii < length pupil \<and> ii < shape1 pokeSteps
             \<and> (pupil ! ii = 1 \<longrightarrow> 2 \<le> length (nonzero_samples pokeSteps ii))"
    using Cons.prems(1) by auto
  show ?case
  proof (cases "pupil ! ii = 1")
    case False
    obtain C' where C': "actuator_loop linregress zernikeAmps pokeSteps pupil is slopes C = Inr C'"
      "length C' = shape1 zernikeAmps"
      "\<forall>k<shape1 zernikeAmps. length (C' ! k) = length (C ! k)"
      "\<forall>j. j \<notin> set is \<or> pupil ! j \<noteq> 1 \<longrightarrow> (\<forall>k<shape1 zernikeAmps. C' ! k ! j = C ! k ! j)"
      using Cons.IH [OF rest Cons.prems(2) Cons.prems(3) Cons.prems(4)] by blast
    have "actuator_loop linregress zernikeAmps pokeSteps pupil (ii # is) slopes C = Inr C'"
      using False ii C'(1) by simp
    then show ?thesis using C'(2,3,4) by auto
  next
    case True
    define idx where "idx = nonzero_samples pokeSteps ii"
    define x where "x = map (\<lambda>s. rows pokeSteps ! s ! ii) idx"
    define z where "z = map (\<lambda>s. rows zernikeAmps ! s) idx"
    define slopes' where "slopes' = fit_modes linregress x z [0..<shape1 zernikeAmps] slopes"
    define C1 where "C1 = set_column C ii slopes'"
    have two: "\<not> length x < 2"
      using Cons.prems(1) True by (simp add: x_def idx_def)
    have nobad: "\<not> list_ex (\<lambda>s. shape0 zernikeAmps \<le> s) idx"
      unfolding idx_def by (rule no_bad_sample [OF Cons.prems(2)])
    have ls: "length slopes' = shape1 zernikeAmps"
      by (simp add: slopes'_def length_fit_modes Cons.prems(3))
    have lC1: "length C1 = shape1 zernikeAmps"
      by (simp add: C1_def length_set_column ls Cons.prems(4))
    have step: "actuator_loop linregress zernikeAmps pokeSteps pupil (ii # is) slopes C
                = actuator_loop linregress zernikeAmps pokeSteps pupil is slopes' C1"
      using True ii two nobad
      by (simp add: Let_def idx_def [symmetric] x_def [symmetric] z_def [symmetric]
                    slopes'_def [symmetric] C1_def [symmetric])
    obtain C' where C': "actuator_loop linregress zernikeAmps pokeSteps pupil is slopes' C1 = Inr C'"
      "length C' = shape1 zernikeAmps"
      "\<forall>k<shape1 zernikeAmps. length (C' ! k) = length (C1 ! k)"
      "\<forall>j. j \<notin> set is \<or> pupil ! j \<noteq> 1 \<longrightarrow> (\<forall>k<shape1 zernikeAmps. C' ! k ! j = C1 ! k ! j)"
      using Cons.IH [OF rest Cons.prems(2) ls lC1] by blast
    have C1k: "C1 ! k = (C ! k)[ii := slopes' ! k]" if "k < shape1 zernikeAmps" for k
      using that by (simp add: C1_def nth_set_column ls Cons.prems(4))
    have a: "\<forall>k<shape1 zernikeAmps. length (C' ! k) = length (C ! k)"
      using C'(3) C1k by simp
    have b: "\<forall>j. j \<notin> set (ii # is) \<or> pupil ! j \<noteq> 1 \<longrightarrow> (\<forall>k<shape1 zernikeAmps. C' ! k ! j = C ! k ! j)"
    proof (intro allI impI)
      fix j k assume j: "j \<notin> set (ii # is) \<or> pupil ! j \<noteq> 1" and k: "k < shape1 zernikeAmps"
      have ne: "j \<noteq> ii" using j True by auto
      have "C' ! k ! j = C1 ! k ! j" using C'(4) j k by auto
      also have "\<dots> = C ! k ! j" using C1k [OF k] ne by simp
      finally show "C' ! k ! j = C ! k ! j" .
    qed
    show ?thesis using step C'(1,2) a b by simp
  qed
qed

lemma actuator_loop_fail:
  assumes "\<forall>j\<in>set pre. j < length pupil \<and> j < shape1 pokeSteps
             \<and> (pupil ! j = 1 \<longrightarrow> 2 \<le> length (nonzero_samples pokeSteps j))"
      and "shape0 zernikeAmps = shape0 pokeSteps"
      and "ii < length pupil" and "ii < shape1 pokeSteps" and "pupil ! ii = 1"
      and "length (nonzero_samples pokeSteps ii) < 2"
  shows "actuator_loop linregress zernikeAmps pokeSteps pupil (pre @ ii # post) slopes C
           = Inl (InsufficientSamplesError (ii + 1))"
  using assms(1)
proof (induction pre arbitrary: slopes C)
  case Nil
  show ?case
    using assms(3,4,5,6) no_bad_sample [OF assms(2), of ii]
    by (simp add: Let_def)
next
  case (Cons j pre)
  have j: "j < length pupil" "j < shape1 pokeSteps"
    "pupil ! j = 1 \<longrightarrow> 2 \<le> length (nonzero_samples pokeSteps j)"
    using Cons.prems by auto
  have rest: "\<forall>j\<in>set pre. j < length pupil \<and> j < shape1 pokeSteps
             \<and> (pupil ! j = 1 \<longrightarrow> 2 \<le> length (nonzero_samples pokeSteps j))"
    using Cons.prems by auto
  show ?case
    using j no_bad_sample [OF assms(2), of j] Cons.IH [OF rest]
    by (cases "pupil ! j = 1") (simp_all add: Let_def)
qed

lemma calibration_input_pupil:
  assumes "calibration_input zernikeAmps pokeSteps numActuators pupil_ac"
  shows "length (case pupil_ac of None \<Rightarrow> replicate numActuators 1 | Some p \<Rightarrow> p) = numActuators"
  using assms by (simp add: calibration_input_def split: option.splits)

text \<open>
  C1. On a calibration input (measured modes of shape samples x modes, steps of shape
  samples x actuators) where every actuator in the pupil has at least two samples with a
  nonzero step, \<^verbatim>\<open>create_control_matrix\<close> builds a sensitivity matrix \<^verbatim>\<open>C_mat\<close> of
  shape modes x actuators whose column is all zeros for every actuator outside the
  pupil, and returns (and stores) \<^verbatim>\<open>np.linalg.pinv(C_mat, rcond=threshold)\<close>, the
  pseudo-inverse with the small singular values discarded, of shape actuators x modes.
  The pseudo-inverse routine is numpy's; of it the theorem assumes only that it maps an
  m x n array to an n x m array.
\<close>

theorem create_control_matrix_calibrate:
  assumes "calibration_input zernikeAmps pokeSteps numActuators pupil_ac"
      and "\<forall>ii<numActuators. in_pupil numActuators pupil_ac ii \<longrightarrow>
             2 \<le> length (nonzero_samples pokeSteps ii)"
      and "\<forall>m t. wf_matrix m \<longrightarrow>
             wf_matrix (pinv m t) \<and> shape0 (pinv m t) = shape1 m \<and> shape1 (pinv m t) = shape0 m"
  shows "\<exists>C. C_mat_of linregress zernikeAmps pokeSteps numActuators pupil_ac = Inr C
           \<and> wf_matrix C \<and> shape0 C = shape1 zernikeAmps \<and> shape1 C = numActuators
           \<and> (\<forall>ii<numActuators. \<not> in_pupil numActuators pupil_ac ii \<longrightarrow>
                  column C ii = replicate (shape1 zernikeAmps) 0)
           \<and> create_control_matrix linregress pinv self zernikeAmps pokeSteps numActuators
                pupil_ac threshold
               = Inr (pinv C threshold, self\<lparr>controlMatrix := Some (pinv C threshold)\<rparr>)
           \<and> wf_matrix (pinv C threshold)
           \<and> shape0 (pinv C threshold) = numActuators
           \<and> shape1 (pinv C threshold) = shape1 zernikeAmps"
proof -
  define pupil where "pupil = (case pupil_ac of None \<Rightarrow> replicate numActuators 1 | Some p \<Rightarrow> p)"
  define M where "M = shape1 zernikeAmps"
  define C0 where "C0 = replicate M (replicate numActuators (0::real))"
  have lp: "length pupil = numActuators"
    unfolding pupil_def by (rule calibration_input_pupil [OF assms(1)])
  have sh: "shape0 zernikeAmps = shape0 pokeSteps" "shape1 pokeSteps = numActuators"
    using assms(1) by (simp_all add: calibration_input_def)
  have pre: "\<forall>ii\<in>set [0..<numActuators]. ii < length pupil \<and> ii < shape1 pokeSteps
             \<and> (pupil ! ii = 1 \<longrightarrow> 2 \<le> length (nonzero_samples pokeSteps ii))"
    using assms(2) lp sh(2) by (simp add: in_pupil_def pupil_def)
  obtain C' where C':
    "actuator_loop linregress zernikeAmps pokeSteps pupil [0..<numActuators] (replicate M 0) C0 = Inr C'"
    "length C' = M"
    "\<forall>k<M. length (C' ! k) = length (C0 ! k)"
    "\<forall>j. j \<notin> set [0..<numActuators] \<or> pupil ! j \<noteq> 1 \<longrightarrow> (\<forall>k<M. C' ! k ! j = C0 ! k ! j)"
    using actuator_loop_ok [OF pre sh(1), of "replicate M 0" C0 linregress]
    unfolding M_def C0_def by auto
  define C where "C = \<lparr>shape0 = M, shape1 = numActuators, rows = C'\<rparr>"
  have run: "C_mat_of linregress zernikeAmps pokeSteps numActuators pupil_ac = Inr C"
    unfolding C_mat_of_def Let_def
    using C'(1) by (simp add: pupil_def M_def C0_def C_def)
  have rowlen: "\<forall>k<M. length (C' ! k) = numActuators"
    using C'(3) by (simp add: C0_def)
  have wf: "wf_matrix C"
    using C'(2) rowlen by (simp add: wf_matrix_def C_def list_all_length)
  have zero: "\<forall>ii<numActuators. \<not> in_pupil numActuators pupil_ac ii \<longrightarrow>
                column C ii = replicate M 0"
  proof (intro allI impI)
    fix ii assume ii: "ii < numActuators" and out: "\<not> in_pupil numActuators pupil_ac ii"
    have ne: "pupil ! ii \<noteq> 1" using out by (simp add: in_pupil_def pupil_def)
    have "\<forall>k<M. C' ! k ! ii = 0"
      using C'(4) ne ii by (simp add: C0_def)
    then show "column C ii = replicate M 0"
      using C'(2) by (auto simp: column_def C_def intro!: nth_equalityI)
  qed
  have res: "create_control_matrix linregress pinv self zernikeAmps pokeSteps numActuators
                pupil_ac threshold
               = Inr (pinv C threshold, self\<lparr>controlMatrix := Some (pinv C threshold)\<rparr>)"
    unfolding create_control_matrix_def using run by (simp add: Let_def)
  have pv: "wf_matrix (pinv C threshold)" "shape0 (pinv C threshold) = numActuators"
    "shape1 (pinv C threshold) = M"
    using assms(3) wf by (simp_all add: C_def)
  have shapeC: "shape0 C = M" "shape1 C = numActuators"
    by (simp_all add: C_def)
  show ?thesis
  proof (intro exI [of _ C] conjI)
    show "C_mat_of linregress zernikeAmps pokeSteps numActuators pupil_ac = Inr C" by (rule run)
    show "wf_matrix C" by (rule wf)
    show "shape0 C = shape1 zernikeAmps" using shapeC(1) by (simp add: M_def)
    show "shape1 C = numActuators" by (rule shapeC(2))
    show "\<forall>ii<numActuators. \<not> in_pupil numActuators pupil_ac ii \<longrightarrow>
                  column C ii = replicate (shape1 zernikeAmps) 0"
      using zero by (simp add: M_def)
    show "create_control_matrix linregress pinv self zernikeAmps pokeSteps numActuators
                pupil_ac threshold
               = Inr (pinv C threshold, self\<lparr>controlMatrix := Some (pinv C threshold)\<rparr>)"
      by (rule res)
    show "wf_matrix (pinv C threshold)" by (rule pv(1))
    show "shape0 (pinv C threshold) = numActuators" by (rule pv(2))
    show "shape1 (pinv C threshold) = shape1 zernikeAmps" using pv(3) by (simp add: M_def)
  qed
qed

text \<open>
  C3. If some actuator in the pupil has fewer than two samples with a nonzero step
  (exactly one such sample included), \<^verbatim>\<open>create_control_matrix\<close> fails with the
  insufficient-samples error. The error carries the 1-based number of the first such
  actuator, the one the loop meets first.
\<close>

theorem create_control_matrix_insufficient:
  assumes "calibration_input zernikeAmps pokeSteps numActuators pupil_ac"
      and "\<exists>ii<numActuators. in_pupil numActuators pupil_ac ii
             \<and> length (nonzero_samples pokeSteps ii) < 2"
  shows "\<exists>ii<numActuators. in_pupil numActuators pupil_ac ii
           \<and> length (nonzero_samples pokeSteps ii) < 2
           \<and> (\<forall>j<ii. in_pupil numActuators pupil_ac j \<longrightarrow>
                  2 \<le> length (nonzero_samples pokeSteps j))
           \<and> create_control_matrix linregress pinv self zernikeAmps pokeSteps numActuators
                pupil_ac threshold = Inl (InsufficientSamplesError (ii + 1))"
proof -
  define bad where "bad ii = (ii < numActuators \<and> in_pupil numActuators pupil_ac ii
             \<and> length (nonzero_samples pokeSteps ii) < 2)" for ii
  define pupil where "pupil = (case pupil_ac of None \<Rightarrow> replicate numActuators 1 | Some p \<Rightarrow> p)"
  have ex: "\<exists>ii. bad ii" using assms(2) by (auto simp: bad_def)
  define ii where "ii = (LEAST ii. bad ii)"
  have bad: "bad ii" unfolding ii_def using ex by (metis LeastI)
  have least: "\<not> bad j" if "j < ii" for j
    using that unfolding ii_def by (rule not_less_Least)
  have ii: "ii < numActuators" "in_pupil numActuators pupil_ac ii"
    "length (nonzero_samples pokeSteps ii) < 2"
    using bad by (simp_all add: bad_def)
  have before: "\<forall>j<ii. in_pupil numActuators pupil_ac j \<longrightarrow>
                  2 \<le> length (nonzero_samples pokeSteps j)"
  proof (intro allI impI)
    fix j assume j: "j < ii" and p: "in_pupil numActuators pupil_ac j"
    have "j < numActuators" using j ii(1) by simp
    then show "2 \<le> length (nonzero_samples pokeSteps j)"
      using least [OF j] p by (simp add: bad_def)
  qed
  have lp: "length pupil = numActuators"
    unfolding pupil_def by (rule calibration_input_pupil [OF assms(1)])
  have sh: "shape0 zernikeAmps = shape0 pokeSteps" "shape1 pokeSteps = numActuators"
    using assms(1) by (simp_all add: calibration_input_def)
  have pre: "\<forall>j\<in>set [0..<ii]. j < length pupil \<and> j < shape1 pokeSteps
             \<and> (pupil ! j = 1 \<longrightarrow> 2 \<le> length (nonzero_samples pokeSteps j))"
    using before ii(1) lp sh(2) by (simp add: in_pupil_def pupil_def)
  have split: "[0..<numActuators] = [0..<ii] @ ii # [Suc ii..<numActuators]"
  proof -
    have "[0..<numActuators] = [0..<ii] @ [ii..<numActuators]"
      using ii(1) upt_add_eq_append [of 0 ii "numActuators - ii"] by simp
    then show ?thesis using ii(1) by (simp add: upt_conv_Cons)
  qed
  have "actuator_loop linregress zernikeAmps pokeSteps pupil [0..<numActuators] slopes C
           = Inl (InsufficientSamplesError (ii + 1))" for slopes C
    unfolding split
    using ii lp sh(2)
    by (intro actuator_loop_fail [OF pre sh(1)]) (simp_all add: in_pupil_def pupil_def)
  then have "create_control_matrix linregress pinv self zernikeAmps pokeSteps numActuators
                pupil_ac threshold = Inl (InsufficientSamplesError (ii + 1))"
    unfolding create_control_matrix_def C_mat_of_def Let_def pupil_def by simp
  then show ?thesis using ii before by (intro exI [of _ ii]) simp
qed

lemma all_less_3: "(\<forall>i<3. Q (i::nat)) = (Q 0 \<and> Q 1 \<and> Q 2)"
proof
  assume a: "\<forall>i<3. Q i"
  have "Q 0" "Q 1" "Q 2" using a by simp_all
  then show "Q 0 \<and> Q 1 \<and> Q 2" by simp
next
  assume b: "Q 0 \<and> Q 1 \<and> Q 2"
  show "\<forall>i<3. Q i"
  proof (intro allI impI)
    fix i :: nat assume "i < 3"
    then have "i = 0 \<or> i = 1 \<or> i = 2" by arith
    then show "Q i" using b by auto
  qed
qed

lemma example_pinv_shape:
  "\<forall>m t. wf_matrix m \<longrightarrow>
     wf_matrix (example_pinv m t) \<and> shape0 (example_pinv m t) = shape1 m
     \<and> shape1 (example_pinv m t) = shape0 m"
  by (simp add: example_pinv_def wf_matrix_def list_all_iff)

theorem create_control_matrix_calibrate_witness:
  "C_mat_of example_linregress example_zernikeAmps example_pokeSteps 3 (Some [1, 0, 1])
     = Inr \<lparr>shape0 = 2, shape1 = 3, rows = [[2, 0, 0], [1, 0, 3]]\<rparr>
   \<and> column \<lparr>shape0 = 2, shape1 = 3, rows = [[2, 0, 0], [1, 0, 3]]\<rparr> 1 = [0, 0]
   \<and> create_control_matrix example_linregress example_pinv (init :: unit ao_state)
        example_zernikeAmps example_pokeSteps 3 (Some [1, 0, 1]) (5 / 1000)
      = Inr (\<lparr>shape0 = 3, shape1 = 2, rows = [[2, 1], [0, 0], [0, 3]]\<rparr>,
             init\<lparr>controlMatrix :=
                    Some \<lparr>shape0 = 3, shape1 = 2, rows = [[2, 1], [0, 0], [0, 3]]\<rparr>\<rparr>)"
proof -
  define Cv where "Cv = \<lparr>shape0 = 2, shape1 = 3, rows = [[2, 0, 0], [1, 0, 3 :: real]]\<rparr>"
  have h1: "calibration_input example_zernikeAmps example_pokeSteps 3 (Some [1, 0, 1])"
    by code_simp
  have s0: "2 \<le> length (nonzero_samples example_pokeSteps 0)" by code_simp
  have s1: "\<not> in_pupil 3 (Some [1, 0, 1]) 1" by code_simp
  have s2: "2 \<le> length (nonzero_samples example_pokeSteps 2)" by code_simp
  have h2: "\<forall>ii<3. in_pupil 3 (Some [1, 0, 1]) ii \<longrightarrow>
              2 \<le> length (nonzero_samples example_pokeSteps ii)"
    using s0 s1 s2 by (simp add: all_less_3)
  obtain C where C:
    "C_mat_of example_linregress example_zernikeAmps example_pokeSteps 3 (Some [1, 0, 1]) = Inr C"
    "\<forall>ii<3. \<not> in_pupil 3 (Some [1, 0, 1]) ii \<longrightarrow> column C ii = replicate (shape1 example_zernikeAmps) 0"
    "create_control_matrix example_linregress example_pinv (init :: unit ao_state)
        example_zernikeAmps example_pokeSteps 3 (Some [1, 0, 1]) (5 / 1000)
      = Inr (example_pinv C (5 / 1000), init\<lparr>controlMatrix := Some (example_pinv C (5 / 1000))\<rparr>)"
    using create_control_matrix_calibrate [OF h1 h2 example_pinv_shape,
             of example_linregress "init :: unit ao_state" "5 / 1000"]
    by blast
  have v: "C_mat_of example_linregress example_zernikeAmps example_pokeSteps 3 (Some [1, 0, 1])
             = Inr Cv"
    unfolding Cv_def by code_simp
  have CC: "C = Cv" using C(1) v by simp
  have col: "column Cv 1 = [0, 0]"
    using C(2) s1 unfolding CC by (simp add: example_zernikeAmps_def numeral_2_eq_2)
  have pv: "example_pinv Cv (5 / 1000) = \<lparr>shape0 = 3, shape1 = 2, rows = [[2, 1], [0, 0], [0, 3]]\<rparr>"
    unfolding Cv_def by code_simp
  show ?thesis
    using v col C(3) unfolding CC pv unfolding Cv_def by simp
qed

theorem create_control_matrix_insufficient_witness:
  "create_control_matrix example_linregress example_pinv (init :: unit ao_state)
     example_zernikeAmps example_pokeSteps_short 3 None (5 / 1000)
   = Inl (InsufficientSamplesError 2)"
proof -
  have h1: "calibration_input example_zernikeAmps example_pokeSteps_short 3 None"
    by code_simp
  have p1: "in_pupil 3 None 1" by code_simp
  have s0: "length (nonzero_samples example_pokeSteps_short 0) = 2" by code_simp
  have s1: "length (nonzero_samples example_pokeSteps_short 1) = 1" by code_simp
  have s2: "length (nonzero_samples example_pokeSteps_short 2) = 2" by code_simp
  have h2: "\<exists>ii<3. in_pupil 3 None ii \<and> length (nonzero_samples example_pokeSteps_short ii) < 2"
    using p1 s1 by (intro exI [of _ 1]) simp
  obtain ii where ii: "ii < 3" "length (nonzero_samples example_pokeSteps_short ii) < 2"
    "create_control_matrix example_linregress example_pinv (init :: unit ao_state)
       example_zernikeAmps example_pokeSteps_short 3 None (5 / 1000)
     = Inl (InsufficientSamplesError (ii + 1))"
    using create_control_matrix_insufficient [OF h1 h2,
             of example_linregress example_pinv "init :: unit ao_state" "5 / 1000"]
    by blast
  have "ii = 0 \<or> ii = 1 \<or> ii = 2" using ii(1) by arith
  then have "ii = 1" using ii(2) s0 s2 by auto
  then show ?thesis using ii(3) by simp
qed

subsection \<open>Sensorless estimation\<close>



text \<open>
  The curve that is fitted, \<^verbatim>\<open>gaussian_funcion\<close>, has its largest value at
  \<open>x = mean\<close> when the height \<open>normalising\<close> is not negative, which the lower bound 0
  on that parameter asks of the fit; the value there is \<open>offset\<close>. With a positive
  height and a nonzero width the peak is nowhere else.
\<close>

lemma gaussian_funcion_at_mean:
  "gaussian_funcion mean offset normalising mean std_dev = offset"
  by (simp add: gaussian_funcion_def)

lemma gaussian_exponent_nonpos:
  "(- ((x - mean) ^ 2)) / (2 * std_dev ^ 2) \<le> (0::real)"
  by (simp add: divide_nonpos_nonneg)

lemma gaussian_funcion_peak:
  assumes "0 \<le> normalising"
  shows "gaussian_funcion x offset normalising mean std_dev
           \<le> gaussian_funcion mean offset normalising mean std_dev"
proof -
  have "exp ((- ((x - mean) ^ 2)) / (2 * std_dev ^ 2)) \<le> 1"
    using gaussian_exponent_nonpos [of x mean std_dev] by simp
  then have "normalising * exp ((- ((x - mean) ^ 2)) / (2 * std_dev ^ 2)) \<le> normalising * 1"
    using assms by (rule mult_left_mono)
  then show ?thesis
    unfolding gaussian_funcion_at_mean by (simp add: gaussian_funcion_def)
qed

lemma gaussian_funcion_peak_strict:
  assumes "0 < normalising" and "std_dev \<noteq> 0" and "x \<noteq> mean"
  shows "gaussian_funcion x offset normalising mean std_dev
           < gaussian_funcion mean offset normalising mean std_dev"
proof -
  have "0 < (x - mean) ^ 2" using assms(3) by simp
  moreover have "0 < 2 * std_dev ^ 2" using assms(2) by simp
  ultimately have "(- ((x - mean) ^ 2)) / (2 * std_dev ^ 2) < 0"
    by (simp add: divide_neg_pos)
  then have "exp ((- ((x - mean) ^ 2)) / (2 * std_dev ^ 2)) < 1" by simp
  then have "normalising * exp ((- ((x - mean) ^ 2)) / (2 * std_dev ^ 2)) < normalising * 1"
    using assms(1) by (rule mult_strict_left_mono)
  then show ?thesis
    unfolding gaussian_funcion_at_mean by (simp add: gaussian_funcion_def)
qed

text \<open>
  C5. When the fit converges, \<^verbatim>\<open>find_zernike_amp_sensorless\<close> returns -1.0 times the
  fitted peak location: the parameter \<open>mean\<close> of the fitted curve \<^verbatim>\<open>gaussian_funcion\<close>,
  the place where that curve is largest (and the only such place when the fitted height
  is positive and the fitted width nonzero). The fit was run with the peak location
  bounded by min - 0.25 (max - min) below and max + 0.25 (max - min) above, min and max
  taken over the applied amplitudes, and with the height bounded below by 0; a fit that
  keeps its parameters within the bounds it is given therefore returns a peak location
  in that interval.
\<close>

theorem find_zernike_amp_sensorless_fitted:
  assumes "respects_bounds curve_fit"
      and "image_stack = [] \<or> metric self \<in> set metric_names"
      and "zernike_amplitudes \<noteq> []"
      and "curve_fit gaussian_funcion zernike_amplitudes
             (map (metric_fn (metric self)) image_stack)
             (fit_bounds
                (Min (set zernike_amplitudes)
                   - 0.25 * (Max (set zernike_amplitudes) - Min (set zernike_amplitudes)))
                (Max (set zernike_amplitudes)
                   + 0.25 * (Max (set zernike_amplitudes) - Min (set zernike_amplitudes))))
           = Inr (offset, normalising, mean, std_dev)"
  shows "find_zernike_amp_sensorless metric_fn curve_fit exceeds_2std self image_stack
           zernike_amplitudes
           = Inr (Scalar (- mean))
         \<and> Min (set zernike_amplitudes)
             - 0.25 * (Max (set zernike_amplitudes) - Min (set zernike_amplitudes)) \<le> mean
         \<and> mean \<le> Max (set zernike_amplitudes)
             + 0.25 * (Max (set zernike_amplitudes) - Min (set zernike_amplitudes))
         \<and> (\<forall>x. gaussian_funcion x offset normalising mean std_dev
                  \<le> gaussian_funcion mean offset normalising mean std_dev)
         \<and> (0 < normalising \<and> std_dev \<noteq> 0 \<longrightarrow>
               (\<forall>x. x \<noteq> mean \<longrightarrow>
                  gaussian_funcion x offset normalising mean std_dev
                    < gaussian_funcion mean offset normalising mean std_dev))"
proof -
  have run: "find_zernike_amp_sensorless metric_fn curve_fit exceeds_2std self image_stack
               zernike_amplitudes
           = Inr (Scalar (- mean))"
    unfolding find_zernike_amp_sensorless_def Let_def
    using assms(2,3,4) by auto
  have "within_bounds
          (fit_bounds
                (Min (set zernike_amplitudes)
                   - 0.25 * (Max (set zernike_amplitudes) - Min (set zernike_amplitudes)))
                (Max (set zernike_amplitudes)
                   + 0.25 * (Max (set zernike_amplitudes) - Min (set zernike_amplitudes))))
          (offset, normalising, mean, std_dev)"
    using assms(1,4) unfolding respects_bounds_def by blast
  then have inside: "Min (set zernike_amplitudes)
             - 0.25 * (Max (set zernike_amplitudes) - Min (set zernike_amplitudes)) \<le> mean"
      "mean \<le> Max (set zernike_amplitudes)
             + 0.25 * (Max (set zernike_amplitudes) - Min (set zernike_amplitudes))"
      "0 \<le> normalising"
    by (simp_all add: within_bounds_def fit_bounds_def)
  have peak: "\<forall>x. gaussian_funcion x offset normalising mean std_dev
                  \<le> gaussian_funcion mean offset normalising mean std_dev"
    using gaussian_funcion_peak [OF inside(3)] by blast
  have strict: "0 < normalising \<and> std_dev \<noteq> 0 \<longrightarrow>
               (\<forall>x. x \<noteq> mean \<longrightarrow>
                  gaussian_funcion x offset normalising mean std_dev
                    < gaussian_funcion mean offset normalising mean std_dev)"
    using gaussian_funcion_peak_strict by blast
  show ?thesis
    using run inside(1,2) peak strict by (intro conjI)
qed


lemma example_fit_peak_respects_bounds: "respects_bounds example_fit_peak"
  unfolding respects_bounds_def example_fit_peak_def within_bounds_def
  by (auto split: prod.splits list.splits option.splits if_splits)

theorem find_zernike_amp_sensorless_fitted_witness:
  "find_zernike_amp_sensorless example_measure example_fit_peak example_exceeds_2std
     (init :: unit ao_state) [1, 3, 2] [0, 1, 2] = Inr (Scalar (- 1))
   \<and> Min (set [0, 1, 2 :: real]) - 0.25 * (Max (set [0, 1, 2]) - Min (set [0, 1, 2])) \<le> 1
   \<and> (1 :: real) \<le> Max (set [0, 1, 2]) + 0.25 * (Max (set [0, 1, 2]) - Min (set [0, 1, 2]))
   \<and> gaussian_funcion 0 0 1 1 1 < gaussian_funcion 1 0 1 1 1
   \<and> gaussian_funcion 2 0 1 1 1 < gaussian_funcion 1 0 1 1 1
   \<and> gaussian_funcion 1 0 1 1 1 = 0"
proof -
  have h2: "[1, 3, 2 :: real] = [] \<or> metric (init :: unit ao_state) \<in> set metric_names"
    by (simp add: init_def metric_names_def)
  have h3: "[0, 1, 2 :: real] \<noteq> []" by simp
  have h4: "example_fit_peak gaussian_funcion [0, 1, 2]
             (map (example_measure (metric (init :: unit ao_state))) [1, 3, 2])
             (fit_bounds
                (Min (set [0, 1, 2]) - 0.25 * (Max (set [0, 1, 2]) - Min (set [0, 1, 2])))
                (Max (set [0, 1, 2]) + 0.25 * (Max (set [0, 1, 2]) - Min (set [0, 1, 2]))))
           = Inr (0, 1, 1, 1)"
    by (simp add: example_fit_peak_def example_measure_def fit_bounds_def)
  note T = find_zernike_amp_sensorless_fitted
            [where curve_fit = example_fit_peak and metric_fn = example_measure
               and exceeds_2std = example_exceeds_2std
               and self = "init :: unit ao_state" and image_stack = "[1, 3, 2]"
               and zernike_amplitudes = "[0, 1, 2]" and offset = 0 and normalising = 1
               and mean = 1 and std_dev = 1,
             OF example_fit_peak_respects_bounds h2 h3 h4]
  have run: "find_zernike_amp_sensorless example_measure example_fit_peak example_exceeds_2std
     (init :: unit ao_state) [1, 3, 2] [0, 1, 2] = Inr (Scalar (- 1))"
    and lo: "Min (set [0, 1, 2 :: real]) - 0.25 * (Max (set [0, 1, 2]) - Min (set [0, 1, 2])) \<le> 1"
    and hi: "(1 :: real) \<le> Max (set [0, 1, 2]) + 0.25 * (Max (set [0, 1, 2]) - Min (set [0, 1, 2]))"
    and strict: "\<forall>x. x \<noteq> 1 \<longrightarrow> gaussian_funcion x 0 1 1 1 < gaussian_funcion 1 0 1 1 1"
    using T by simp_all
  have g0: "gaussian_funcion 0 0 1 1 1 < gaussian_funcion 1 0 1 1 1"
    and g2: "gaussian_funcion 2 0 1 1 1 < gaussian_funcion 1 0 1 1 1"
    using strict by simp_all
  have g1: "gaussian_funcion 1 0 1 1 1 = 0" by (rule gaussian_funcion_at_mean)
  show ?thesis using run lo hi g0 g2 g1 by (intro conjI)
qed







lemma py_index_mode:
  "1 \<le> i \<Longrightarrow> i \<le> int n \<Longrightarrow> py_index n (i - 1) = Inr (nat (i - 1))"
  by (simp add: py_index_def)

lemma length_block:
  "(ii + 1) * numMes \<le> length xs \<Longrightarrow> length (block numMes ii xs) = numMes"
  by (simp add: block_def)

lemma nth_block:
  "(ii + 1) * numMes \<le> length xs \<Longrightarrow> t < numMes \<Longrightarrow>
     block numMes ii xs ! t = xs ! (ii * numMes + t)"
  by (simp add: block_def)

lemma length_fold_update:
  "length (fold (\<lambda>ii c. c[idx ii := a ii]) is c) = length c"
  by (induction "is" arbitrary: c) simp_all

lemma fold_update_other:
  "\<forall>ii\<in>set is. idx ii \<noteq> p \<Longrightarrow> fold (\<lambda>ii c. c[idx ii := a ii]) is c ! p = c ! p"
  by (induction "is" arbitrary: c) simp_all

lemma fold_update_last:
  assumes "\<forall>jj\<in>set post. idx jj \<noteq> idx ii" and "idx ii < length c"
  shows "fold (\<lambda>ii c. c[idx ii := a ii]) (pre @ ii # post) c ! idx ii = a ii"
proof -
  have "fold (\<lambda>ii c. c[idx ii := a ii]) (pre @ ii # post) c ! idx ii
          = ((fold (\<lambda>ii c. c[idx ii := a ii]) pre c)[idx ii := a ii]) ! idx ii"
    using assms(1) by (simp add: fold_update_other)
  also have "\<dots> = a ii"
    using assms(2) by (simp add: length_fold_update)
  finally show ?thesis .
qed

lemma sensorless_loop_fold:
  assumes "\<forall>ii\<in>set is. 1 \<le> nollZernike ! ii \<and> nollZernike ! ii \<le> int (shape1 full_zernike_applied)"
      and "\<forall>ii\<in>set is. \<exists>amp.
             find_zernike_amp_sensorless metric_fn curve_fit exceeds_2std self
               (block numMes ii full_image_stack)
               (map (\<lambda>r. r ! nat (nollZernike ! ii - 1))
                  (block numMes ii (rows full_zernike_applied))) = Inr amp
             \<and> item_of amp = Inr (a ii)"
  shows "sensorless_loop metric_fn curve_fit exceeds_2std self full_image_stack full_zernike_applied
           nollZernike numMes is coef
         = Inr (fold (\<lambda>ii c. c[nat (nollZernike ! ii - 1) := a ii]) is coef)"
  using assms
proof (induction "is" arbitrary: coef)
  case Nil
  show ?case by simp
next
  case (Cons ii "is")
  have idx: "py_index (shape1 full_zernike_applied) (nollZernike ! ii - 1)
               = Inr (nat (nollZernike ! ii - 1))"
    using Cons.prems(1) by (simp add: py_index_mode)
  obtain amp where amp:
    "find_zernike_amp_sensorless metric_fn curve_fit exceeds_2std self
               (block numMes ii full_image_stack)
               (map (\<lambda>r. r ! nat (nollZernike ! ii - 1))
                  (block numMes ii (rows full_zernike_applied))) = Inr amp"
    "item_of amp = Inr (a ii)"
    using Cons.prems(2) by auto
  have rest1: "\<forall>ii\<in>set is. 1 \<le> nollZernike ! ii \<and> nollZernike ! ii \<le> int (shape1 full_zernike_applied)"
    using Cons.prems(1) by simp
  have rest2: "\<forall>ii\<in>set is. \<exists>amp.
             find_zernike_amp_sensorless metric_fn curve_fit exceeds_2std self
               (block numMes ii full_image_stack)
               (map (\<lambda>r. r ! nat (nollZernike ! ii - 1))
                  (block numMes ii (rows full_zernike_applied))) = Inr amp
             \<and> item_of amp = Inr (a ii)"
    using Cons.prems(2) by simp
  show ?case
    using idx amp Cons.IH [OF rest1 rest2] by (simp add: Let_def)
qed

text \<open>
  C6, as amended. \<^verbatim>\<open>get_zernike_modes_sensorless\<close> with S applied-amplitude rows (one
  per image of the stack) and K requested modes cuts the stack into K contiguous blocks
  of S div K images, block ii holding the images ii (S div K) .. (ii + 1) (S div K) - 1,
  and runs the single-mode estimate on block ii with the amplitudes that column
  \<open>nollZernike[ii] - 1\<close> of the applied-amplitude array holds for those images. When every
  estimate returns, the result holds the estimate of block ii at position
  \<open>nollZernike[ii] - 1\<close> (the last block's, when a mode is requested twice) and 0 at
  every position no requested mode names. The length of the result is the number of
  columns of the applied-amplitude array, not the number of requested modes.
\<close>

theorem get_zernike_modes_sensorless_scatter:
  assumes "nollZernike \<noteq> []"
      and "wf_matrix full_zernike_applied"
      and "length full_image_stack = shape0 full_zernike_applied"
      and "\<forall>ii<length nollZernike.
             1 \<le> nollZernike ! ii \<and> nollZernike ! ii \<le> int (shape1 full_zernike_applied)"
      and "numMes = shape0 full_zernike_applied div length nollZernike"
      and "\<forall>ii<length nollZernike. \<exists>amp.
             find_zernike_amp_sensorless metric_fn curve_fit exceeds_2std self
               (block numMes ii full_image_stack)
               (map (\<lambda>r. r ! nat (nollZernike ! ii - 1))
                  (block numMes ii (rows full_zernike_applied))) = Inr amp
             \<and> item_of amp = Inr (a ii)"
  shows "\<exists>coef.
           get_zernike_modes_sensorless metric_fn curve_fit exceeds_2std self full_image_stack
             full_zernike_applied nollZernike = Inr coef
           \<and> length coef = shape1 full_zernike_applied
           \<and> (\<forall>ii<length nollZernike.
                 (\<forall>jj<length nollZernike. ii < jj \<longrightarrow> nollZernike ! jj \<noteq> nollZernike ! ii) \<longrightarrow>
                 coef ! nat (nollZernike ! ii - 1) = a ii)
           \<and> (\<forall>p<shape1 full_zernike_applied.
                 (\<forall>ii<length nollZernike. nat (nollZernike ! ii - 1) \<noteq> p) \<longrightarrow> coef ! p = 0)
           \<and> (\<forall>ii<length nollZernike.
                 length (block numMes ii full_image_stack) = numMes
                 \<and> (\<forall>t<numMes. block numMes ii full_image_stack ! t
                                  = full_image_stack ! (ii * numMes + t))
                 \<and> map (\<lambda>r. r ! nat (nollZernike ! ii - 1))
                       (block numMes ii (rows full_zernike_applied))
                     = map (\<lambda>t. rows full_zernike_applied ! (ii * numMes + t)
                                  ! nat (nollZernike ! ii - 1)) [0..<numMes])"
proof -
  define K where "K = length nollZernike"
  define n where "n = shape1 full_zernike_applied"
  define idx where "idx ii = nat (nollZernike ! ii - 1)" for ii
  define coef where "coef = fold (\<lambda>ii c. c[idx ii := a ii]) [0..<K] (replicate n 0)"
  have Kpos: "0 < K" using assms(1) by (simp add: K_def)
  have a1: "\<forall>ii\<in>set [0..<K]. 1 \<le> nollZernike ! ii \<and> nollZernike ! ii \<le> int n"
    using assms(4) by (simp add: K_def n_def)
  have a2: "\<forall>ii\<in>set [0..<K]. \<exists>amp.
             find_zernike_amp_sensorless metric_fn curve_fit exceeds_2std self
               (block numMes ii full_image_stack)
               (map (\<lambda>r. r ! nat (nollZernike ! ii - 1))
                  (block numMes ii (rows full_zernike_applied))) = Inr amp
             \<and> item_of amp = Inr (a ii)"
    using assms(6) by (simp add: K_def)
  have run: "get_zernike_modes_sensorless metric_fn curve_fit exceeds_2std self full_image_stack
             full_zernike_applied nollZernike = Inr coef"
    unfolding get_zernike_modes_sensorless_def Let_def
    using assms(1) sensorless_loop_fold [OF a1 [unfolded n_def] a2, of "replicate n 0"]
    by (simp add: coef_def idx_def K_def n_def assms(5))
  have len: "length coef = n"
    by (simp add: coef_def length_fold_update)
  have idx_lt: "idx ii < n" if "ii < K" for ii
  proof -
    have "1 \<le> nollZernike ! ii" "nollZernike ! ii \<le> int n"
      using a1 that by simp_all
    then show ?thesis unfolding idx_def by linarith
  qed
  have written: "coef ! idx ii = a ii"
    if ii: "ii < K" and last: "\<forall>jj<K. ii < jj \<longrightarrow> nollZernike ! jj \<noteq> nollZernike ! ii" for ii
  proof -
    have split: "[0..<K] = [0..<ii] @ ii # [Suc ii..<K]"
    proof -
      have "[0..<K] = [0..<ii] @ [ii..<K]"
        using ii upt_add_eq_append [of 0 ii "K - ii"] by simp
      then show ?thesis using ii by (simp add: upt_conv_Cons)
    qed
    have post: "\<forall>jj\<in>set [Suc ii..<K]. idx jj \<noteq> idx ii"
    proof
      fix jj assume "jj \<in> set [Suc ii..<K]"
      then have jj: "ii < jj" "jj < K" by simp_all
      have "nollZernike ! jj \<noteq> nollZernike ! ii" using last jj by simp
      moreover have "1 \<le> nollZernike ! jj" "1 \<le> nollZernike ! ii"
        using a1 jj ii by simp_all
      ultimately show "idx jj \<noteq> idx ii" by (simp add: idx_def)
    qed
    have "idx ii < length (replicate n (0::real))" using idx_lt [OF ii] by simp
    then show ?thesis
      unfolding coef_def split by (rule fold_update_last [OF post])
  qed
  have untouched: "coef ! p = 0" if p: "p < n" and no: "\<forall>ii<K. idx ii \<noteq> p" for p
  proof -
    have "\<forall>ii\<in>set [0..<K]. idx ii \<noteq> p" using no by simp
    then have "coef ! p = replicate n (0::real) ! p"
      unfolding coef_def by (rule fold_update_other)
    then show ?thesis using p by simp
  qed
  have fits: "(ii + 1) * numMes \<le> shape0 full_zernike_applied" if "ii < K" for ii
  proof -
    have "ii + 1 \<le> K" using that by simp
    then have "(ii + 1) * numMes \<le> K * numMes" by (rule mult_le_mono1)
    also have "\<dots> \<le> shape0 full_zernike_applied"
      unfolding assms(5) K_def by (simp add: mult.commute)
    finally show ?thesis .
  qed
  have rows_len: "length (rows full_zernike_applied) = shape0 full_zernike_applied"
    using assms(2) by (simp add: wf_matrix_def)
  have blocks: "length (block numMes ii full_image_stack) = numMes
                 \<and> (\<forall>t<numMes. block numMes ii full_image_stack ! t
                                  = full_image_stack ! (ii * numMes + t))
                 \<and> map (\<lambda>r. r ! idx ii) (block numMes ii (rows full_zernike_applied))
                     = map (\<lambda>t. rows full_zernike_applied ! (ii * numMes + t) ! idx ii) [0..<numMes]"
    if ii: "ii < K" for ii
  proof (intro conjI)
    show "length (block numMes ii full_image_stack) = numMes"
      using fits [OF ii] assms(3) by (simp add: length_block)
    show "\<forall>t<numMes. block numMes ii full_image_stack ! t = full_image_stack ! (ii * numMes + t)"
      using fits [OF ii] assms(3) by (simp add: nth_block)
    have l: "length (block numMes ii (rows full_zernike_applied)) = numMes"
      using fits [OF ii] rows_len by (simp add: length_block)
    show "map (\<lambda>r. r ! idx ii) (block numMes ii (rows full_zernike_applied))
            = map (\<lambda>t. rows full_zernike_applied ! (ii * numMes + t) ! idx ii) [0..<numMes]"
      using l fits [OF ii] rows_len by (intro nth_equalityI) (simp_all add: nth_block)
  qed
  show ?thesis
  proof (intro exI [of _ coef] conjI)
    show "get_zernike_modes_sensorless metric_fn curve_fit exceeds_2std self full_image_stack
             full_zernike_applied nollZernike = Inr coef" by (rule run)
    show "length coef = shape1 full_zernike_applied" using len by (simp add: n_def)
    show "\<forall>ii<length nollZernike.
                 (\<forall>jj<length nollZernike. ii < jj \<longrightarrow> nollZernike ! jj \<noteq> nollZernike ! ii) \<longrightarrow>
                 coef ! nat (nollZernike ! ii - 1) = a ii"
      using written by (simp add: K_def idx_def)
    show "\<forall>p<shape1 full_zernike_applied.
                 (\<forall>ii<length nollZernike. nat (nollZernike ! ii - 1) \<noteq> p) \<longrightarrow> coef ! p = 0"
      using untouched by (simp add: K_def idx_def n_def)
    show "\<forall>ii<length nollZernike.
                 length (block numMes ii full_image_stack) = numMes
                 \<and> (\<forall>t<numMes. block numMes ii full_image_stack ! t
                                  = full_image_stack ! (ii * numMes + t))
                 \<and> map (\<lambda>r. r ! nat (nollZernike ! ii - 1))
                       (block numMes ii (rows full_zernike_applied))
                     = map (\<lambda>t. rows full_zernike_applied ! (ii * numMes + t)
                                  ! nat (nollZernike ! ii - 1)) [0..<numMes]"
      using blocks by (simp add: K_def idx_def)
  qed
qed

lemma example_block_estimates:
  "find_zernike_amp_sensorless example_measure example_fit_peak example_exceeds_2std (init :: unit ao_state)
     [1, 3] [1, 2] = Inr (Scalar (- 2))"
  "find_zernike_amp_sensorless example_measure example_fit_peak example_exceeds_2std (init :: unit ao_state)
     [5, 2] [- 1, 1] = Inr (Scalar 1)"
  "find_zernike_amp_sensorless example_measure example_fit_peak example_exceeds_2std (init :: unit ao_state)
     [3, 1] [1, 2] = Inr (Scalar (- 1))"
  by (simp_all add: find_zernike_amp_sensorless_def example_fit_peak_def example_measure_def
        fit_bounds_def init_def metric_names_def Let_def)

theorem get_zernike_modes_sensorless_scatter_witness:
  "\<exists>coef. get_zernike_modes_sensorless example_measure example_fit_peak example_exceeds_2std (init :: unit ao_state)
            [1, 3, 5, 2] example_applied [3, 1] = Inr coef
          \<and> length coef = 3 \<and> coef ! 2 = - 2 \<and> coef ! 0 = 1 \<and> coef ! 1 = 0"
proof -
  define a :: "nat \<Rightarrow> real" where "a ii = (if ii = 0 then - 2 else 1)" for ii
  have h1: "[3, 1 :: int] \<noteq> []" by simp
  have h2: "wf_matrix example_applied" by (simp add: wf_matrix_def example_applied_def)
  have h3: "length [1, 3, 5, 2 :: real] = shape0 example_applied"
    by (simp add: example_applied_def)
  have h4: "\<forall>ii<length [3, 1 :: int].
             1 \<le> [3, 1 :: int] ! ii \<and> [3, 1 :: int] ! ii \<le> int (shape1 example_applied)"
    by (simp add: example_applied_def less_Suc_eq nth_Cons')
  have "length [3, 1 :: int] = 2" by simp
  then have h5: "(2::nat) = shape0 example_applied div length [3, 1 :: int]"
    by (simp only: example_applied_def matrix.simps)
  have b0: "block 2 0 [1, 3, 5, 2 :: real] = [1, 3]"
    and b1: "block 2 1 [1, 3, 5, 2 :: real] = [5, 2]"
    and c0: "map (\<lambda>r. r ! nat ([3, 1 :: int] ! 0 - 1)) (block 2 0 (rows example_applied)) = [1, 2]"
    and c1: "map (\<lambda>r. r ! nat ([3, 1 :: int] ! 1 - 1)) (block 2 1 (rows example_applied)) = [- 1, 1]"
    by (simp_all add: block_def example_applied_def numeral_2_eq_2)
  have h6: "\<forall>ii<length [3, 1 :: int]. \<exists>amp.
             find_zernike_amp_sensorless example_measure example_fit_peak example_exceeds_2std (init :: unit ao_state)
               (block 2 ii [1, 3, 5, 2])
               (map (\<lambda>r. r ! nat ([3, 1 :: int] ! ii - 1)) (block 2 ii (rows example_applied)))
               = Inr amp
             \<and> item_of amp = Inr (a ii)"
  proof (intro allI impI)
    fix ii assume "ii < length [3, 1 :: int]"
    then have "ii = 0 \<or> ii = 1" by auto
    then show "\<exists>amp.
             find_zernike_amp_sensorless example_measure example_fit_peak example_exceeds_2std (init :: unit ao_state)
               (block 2 ii [1, 3, 5, 2])
               (map (\<lambda>r. r ! nat ([3, 1 :: int] ! ii - 1)) (block 2 ii (rows example_applied)))
               = Inr amp
             \<and> item_of amp = Inr (a ii)"
    proof
      assume "ii = 0"
      then show ?thesis
        using b0 c0 example_block_estimates(1) by (simp add: item_of_def a_def)
    next
      assume "ii = 1"
      then show ?thesis
        using b1 c1 example_block_estimates(2) by (simp add: item_of_def a_def)
    qed
  qed
  obtain coef where coef:
    "get_zernike_modes_sensorless example_measure example_fit_peak example_exceeds_2std (init :: unit ao_state)
            [1, 3, 5, 2] example_applied [3, 1] = Inr coef"
    "length coef = shape1 example_applied"
    "\<forall>ii<length [3, 1 :: int].
        (\<forall>jj<length [3, 1 :: int]. ii < jj \<longrightarrow> [3, 1 :: int] ! jj \<noteq> [3, 1 :: int] ! ii) \<longrightarrow>
        coef ! nat ([3, 1 :: int] ! ii - 1) = a ii"
    "\<forall>p<shape1 example_applied.
        (\<forall>ii<length [3, 1 :: int]. nat ([3, 1 :: int] ! ii - 1) \<noteq> p) \<longrightarrow> coef ! p = 0"
    using get_zernike_modes_sensorless_scatter [OF h1 h2 h3 h4 h5 h6] by blast
  have l: "length coef = 3" using coef(2) by (simp add: example_applied_def)
  have e2: "coef ! 2 = - 2"
    using coef(3) [rule_format, of 0] by (simp add: a_def less_Suc_eq)
  have e0: "coef ! 0 = 1"
    using coef(3) [rule_format, of 1] by (simp add: a_def)
  have none: "\<forall>ii<length [3, 1 :: int]. nat ([3, 1 :: int] ! ii - 1) \<noteq> 1"
    by (simp add: less_Suc_eq nth_Cons')
  have "(1::nat) < shape1 example_applied" by (simp add: example_applied_def)
  then have e1: "coef ! 1 = 0"
    using coef(4) none by blast
  show ?thesis using coef(1) l e2 e0 e1 by blast
qed

text \<open>
  The claim C6 as stated fails on its last part: with one requested mode, mode 2, and an
  applied-amplitude array of two columns, the result has two entries, not one.
\<close>

theorem get_zernike_modes_sensorless_scatter_counterexample:
  "get_zernike_modes_sensorless example_measure example_fit_peak example_exceeds_2std (init :: unit ao_state)
     [3, 1] \<lparr>shape0 = 2, shape1 = 2, rows = [[0, 1], [0, 2]]\<rparr> [2] = Inr [0, - 1]
   \<and> length [0, - 1 :: real] \<noteq> length [2 :: int]"
proof -
  have "block 2 0 [3, 1 :: real] = [3, 1]"
    and "map (\<lambda>r. r ! 1) (block 2 0 [[0, 1], [0, 2 :: real]]) = [1, 2]"
    by (simp_all add: block_def)
  then show ?thesis
    using example_block_estimates(3)
    by (simp add: get_zernike_modes_sensorless_def py_index_def item_of_def Let_def
          numeral_2_eq_2)
qed

subsection \<open>Binning\<close>

lemma length_concat_grid:
  "length (concat (map (\<lambda>u. map (g u) [0..<I]) [0..<n])) = n * I"
  by (induction n) simp_all

lemma nth_concat_grid:
  "u < n \<Longrightarrow> q < I \<Longrightarrow> concat (map (\<lambda>u. map (g u) [0..<I]) [0..<n]) ! (u * I + q) = g u q"
proof (induction n)
  case 0
  then show ?case by simp
next
  case (Suc n)
  show ?case
  proof (cases "u < n")
    case True
    have "u * I + q < n * I"
    proof -
      have "u * I + q < u * I + I" using Suc.prems(2) by simp
      also have "\<dots> = (u + 1) * I" by simp
      also have "\<dots> \<le> n * I" using True by (intro mult_le_mono1) simp
      finally show ?thesis .
    qed
    then show ?thesis
      using Suc.IH [OF True Suc.prems(2)] by (simp add: nth_append length_concat_grid)
  next
    case False
    then have "u = n" using Suc.prems(1) by simp
    then show ?thesis using Suc.prems(2) by (simp add: nth_append length_concat_grid)
  qed
qed


lemma sum_list_upt: "sum_list (map f [0..<n]) = (\<Sum>j<n. (f j :: real))"
  by (simp add: interv_sum_list_conv_sum_set_nat atLeast0LessThan)


lemma grid_index_less:
  assumes "u < A" and "j < (n :: nat)"
  shows "u * n + j < A * n"
proof -
  have "u * n + j < u * n + n" using assms(2) by simp
  also have "\<dots> = (u + 1) * n" by simp
  also have "\<dots> \<le> A * n" using assms(1) by (intro mult_le_mono1) simp
  finally show ?thesis .
qed

lemma reduce_last_axis:
  "reduce_axis operation (Suc (Suc (Suc 0))) \<lparr>shape = [d0, b0, d1, b1], data = xs\<rparr>
     = \<lparr>shape = [d0, b0, d1],
        data = map (\<lambda>u. (if operation = ''sum'' then sum_list (map (\<lambda>j. xs ! (u * b1 + j)) [0..<b1])
                         else sum_list (map (\<lambda>j. xs ! (u * b1 + j)) [0..<b1]) / real b1))
                 [0..<d0 * b0 * d1]\<rparr>"
  by (simp add: reduce_axis_def Let_def concat_map_singleton mult.assoc)

lemma reduce_middle_axis:
  "reduce_axis operation (Suc 0) \<lparr>shape = [d0, b0, d1], data = ys\<rparr>
     = \<lparr>shape = [d0, d1],
        data = concat (map (\<lambda>u. map (\<lambda>q.
                 (if operation = ''sum'' then sum_list (map (\<lambda>p. ys ! ((u * b0 + p) * d1 + q)) [0..<b0])
                  else sum_list (map (\<lambda>p. ys ! ((u * b0 + p) * d1 + q)) [0..<b0]) / real b0))
                 [0..<d1]) [0..<d0])\<rparr>"
  by (simp add: reduce_axis_def Let_def)

lemma bin_loop_2d:
  "bin_loop operation [0..<2] \<lparr>shape = [d0, b0, d1, b1], data = xs\<rparr>
     = Inr (reduce_axis operation (Suc 0)
              (reduce_axis operation (Suc (Suc (Suc 0))) \<lparr>shape = [d0, b0, d1, b1], data = xs\<rparr>))"
proof -
  have "[0..<2] = [0, Suc 0]" by (simp add: numeral_2_eq_2)
  then show ?thesis by (simp add: reduce_last_axis)
qed

lemma block_mean_sum:
  "block_mean xs C b0 b1 i j
     = (\<Sum>p<b0. \<Sum>q<b1. xs ! ((i * b0 + p) * C + (j * b1 + q))) / real (b0 * b1)"
  by (simp add: block_mean_def sum_list_upt)

lemma mean_of_row_means:
  assumes "ys = map (\<lambda>u. sum_list (map (\<lambda>j. xs ! (u * b1 + j)) [0..<b1]) / real b1)
                  [0..<d0 * b0 * d1]"
      and "u < d0" and "q < d1"
  shows "sum_list (map (\<lambda>p. ys ! ((u * b0 + p) * d1 + q)) [0..<b0]) / real b0
           = block_mean xs (d1 * b1) b0 b1 u q"
proof -
  have entry: "ys ! ((u * b0 + p) * d1 + q)
                 = (\<Sum>j<b1. xs ! ((u * b0 + p) * (d1 * b1) + (q * b1 + j))) / real b1"
    if p: "p < b0" for p
  proof -
    have "u * b0 + p < d0 * b0" using assms(2) p by (rule grid_index_less)
    then have lt: "(u * b0 + p) * d1 + q < d0 * b0 * d1"
      using assms(3) by (rule grid_index_less)
    have "ys ! ((u * b0 + p) * d1 + q)
            = sum_list (map (\<lambda>j. xs ! (((u * b0 + p) * d1 + q) * b1 + j)) [0..<b1]) / real b1"
      unfolding assms(1) using lt by simp
    also have "\<dots> = (\<Sum>j<b1. xs ! (((u * b0 + p) * d1 + q) * b1 + j)) / real b1"
      by (simp add: sum_list_upt)
    also have "\<dots> = (\<Sum>j<b1. xs ! ((u * b0 + p) * (d1 * b1) + (q * b1 + j))) / real b1"
    proof -
      have h: "((u * b0 + p) * d1 + q) * b1 + j = (u * b0 + p) * (d1 * b1) + (q * b1 + j)" for j
        by (simp add: algebra_simps)
      show ?thesis by (simp only: h)
    qed
    finally show ?thesis .
  qed
  have "sum_list (map (\<lambda>p. ys ! ((u * b0 + p) * d1 + q)) [0..<b0])
          = (\<Sum>p<b0. ys ! ((u * b0 + p) * d1 + q))"
    by (rule sum_list_upt)
  also have "\<dots> = (\<Sum>p<b0. (\<Sum>j<b1. xs ! ((u * b0 + p) * (d1 * b1) + (q * b1 + j))) / real b1)"
    by (rule sum.cong [OF refl]) (simp add: entry)
  also have "\<dots> = (\<Sum>p<b0. \<Sum>j<b1. xs ! ((u * b0 + p) * (d1 * b1) + (q * b1 + j))) / real b1"
    by (simp add: sum_divide_distrib)
  finally have "sum_list (map (\<lambda>p. ys ! ((u * b0 + p) * d1 + q)) [0..<b0]) / real b0
        = (\<Sum>p<b0. \<Sum>j<b1. xs ! ((u * b0 + p) * (d1 * b1) + (q * b1 + j))) / real b1 / real b0"
    by simp
  also have "\<dots> = block_mean xs (d1 * b1) b0 b1 u q"
    by (simp add: block_mean_sum mult.commute)
  finally show ?thesis .
qed

lemma bin_ndarray_2d_start:
  assumes "0 < d0" and "0 < d1"
      and "shape a = [d0 * b0, d1 * b1]" and "wf_ndarray a"
      and "lower operation = ''sum'' \<or> lower operation = ''mean''"
  shows "bin_ndarray a [d0, d1] operation
           = bin_loop (lower operation) [0..<2] \<lparr>shape = [d0, b0, d1, b1], data = data a\<rparr>"
proof -
  have len: "length (data a) = d0 * (b0 * (d1 * b1))"
    using assms(3,4) by (simp add: wf_ndarray_def mult.assoc)
  have opok: "lower operation \<in> set [''sum'', ''mean'']"
    using assms(5) by auto
  have l2: "length [d0, d1] = 2" by simp
  show ?thesis
    unfolding bin_ndarray_def Let_def l2
    using assms(1,2) len opok by (simp add: assms(3))
qed

lemma bin_ndarray_2d_mean:
  assumes "0 < d0" and "0 < d1"
      and "shape a = [d0 * b0, d1 * b1]" and "wf_ndarray a"
      and "lower operation = ''mean''"
  shows "bin_ndarray a [d0, d1] operation
           = Inr \<lparr>shape = [d0, d1],
                  data = concat (map (\<lambda>i. map (\<lambda>j. block_mean (data a) (d1 * b1) b0 b1 i j)
                                         [0..<d1]) [0..<d0])\<rparr>"
proof -
  define ys where "ys = map (\<lambda>u. sum_list (map (\<lambda>j. data a ! (u * b1 + j)) [0..<b1]) / real b1)
                  [0..<d0 * b0 * d1]"
  have "bin_ndarray a [d0, d1] operation
          = bin_loop ''mean'' [0..<2] \<lparr>shape = [d0, b0, d1, b1], data = data a\<rparr>"
    using bin_ndarray_2d_start [OF assms(1,2,3,4)] assms(5) by simp
  also have "\<dots> = Inr (reduce_axis ''mean'' (Suc 0) \<lparr>shape = [d0, b0, d1], data = ys\<rparr>)"
    by (simp add: bin_loop_2d reduce_last_axis ys_def)
  also have "\<dots> = Inr \<lparr>shape = [d0, d1],
        data = concat (map (\<lambda>u. map (\<lambda>q.
                  sum_list (map (\<lambda>p. ys ! ((u * b0 + p) * d1 + q)) [0..<b0]) / real b0)
                 [0..<d1]) [0..<d0])\<rparr>"
    by (simp add: reduce_middle_axis)
  also have "concat (map (\<lambda>u. map (\<lambda>q.
                  sum_list (map (\<lambda>p. ys ! ((u * b0 + p) * d1 + q)) [0..<b0]) / real b0)
                 [0..<d1]) [0..<d0])
             = concat (map (\<lambda>i. map (\<lambda>j. block_mean (data a) (d1 * b1) b0 b1 i j)
                                         [0..<d1]) [0..<d0])"
    by (intro arg_cong [where f = concat] map_cong refl)
       (simp add: mean_of_row_means [OF ys_def])
  finally show ?thesis .
qed





text \<open>The example of the docstring of \<^verbatim>\<open>bin_ndarray\<close>, as a check of the model.\<close>

lemma bin_ndarray_docstring_example:
  "bin_ndarray \<lparr>shape = [10, 10], data = map real [0..<100]\<rparr> [5, 5] ''sum''
     = Inr \<lparr>shape = [5, 5],
            data = [22, 30, 38, 46, 54,
                    102, 110, 118, 126, 134,
                    182, 190, 198, 206, 214,
                    262, 270, 278, 286, 294,
                    342, 350, 358, 366, 374]\<rparr>"
  by code_simp

subsection \<open>Modal projection\<close>

lemma divisors_upto_set:
  "set (filter (\<lambda>d. d dvd N) [1..<t + 1]) = {d. 1 \<le> d \<and> d \<le> t \<and> d dvd N}"
  by (auto simp del: upt_Suc)

lemma largest_divisor_upto_props:
  assumes "0 < t"
  shows "largest_divisor_upto N t dvd N"
    and "1 \<le> largest_divisor_upto N t"
    and "largest_divisor_upto N t \<le> t"
    and "d dvd N \<Longrightarrow> 1 \<le> d \<Longrightarrow> d \<le> t \<Longrightarrow> d \<le> largest_divisor_upto N t"
proof -
  define S where "S = {d. 1 \<le> d \<and> d \<le> t \<and> d dvd N}"
  have L: "largest_divisor_upto N t = Max S"
    unfolding largest_divisor_upto_def divisors_upto_set S_def ..
  have "S \<subseteq> {..t}" by (auto simp: S_def)
  then have fin: "finite S" by (rule finite_subset) simp
  have "1 \<in> S" using assms by (simp add: S_def)
  then have ne: "S \<noteq> {}" by auto
  have "Max S \<in> S" using fin ne by (rule Max_in)
  then show "largest_divisor_upto N t dvd N" "1 \<le> largest_divisor_upto N t"
    "largest_divisor_upto N t \<le> t"
    unfolding L by (simp_all add: S_def)
  show "d dvd N \<Longrightarrow> 1 \<le> d \<Longrightarrow> d \<le> t \<Longrightarrow> d \<le> largest_divisor_upto N t"
  proof -
    assume "d dvd N" "1 \<le> d" "d \<le> t"
    then have "d \<in> S" by (simp add: S_def)
    then have "d \<le> Max S" using fin by (rule Max_ge [rotated])
    then show ?thesis by (simp add: L)
  qed
qed

lemma largest_divisor_upto_Suc:
  assumes "0 < t"
  shows "largest_divisor_upto N (Suc t)
           = (if Suc t dvd N then Suc t else largest_divisor_upto N t)"
proof (cases "Suc t dvd N")
  case True
  have "Max {d. 1 \<le> d \<and> d \<le> Suc t \<and> d dvd N} = Suc t"
  proof (rule Max_eqI)
    have "{d. 1 \<le> d \<and> d \<le> Suc t \<and> d dvd N} \<subseteq> {..Suc t}" by auto
    then show "finite {d. 1 \<le> d \<and> d \<le> Suc t \<and> d dvd N}" by (rule finite_subset) simp
    show "\<And>y. y \<in> {d. 1 \<le> d \<and> d \<le> Suc t \<and> d dvd N} \<Longrightarrow> y \<le> Suc t" by simp
    show "Suc t \<in> {d. 1 \<le> d \<and> d \<le> Suc t \<and> d dvd N}" using True by simp
  qed
  then show ?thesis
    using True divisors_upto_set [of N "Suc t"] by (simp add: largest_divisor_upto_def)
next
  case False
  have "{d. 1 \<le> d \<and> d \<le> Suc t \<and> d dvd N} = {d. 1 \<le> d \<and> d \<le> t \<and> d dvd N}"
    using False by (auto simp: le_Suc_eq)
  then show ?thesis
    using False divisors_upto_set [of N "Suc t"] divisors_upto_set [of N t]
    by (simp add: largest_divisor_upto_def)
qed

lemma int_mod_dvd: "(int N mod int k \<noteq> 0) = (\<not> k dvd N)"
proof -
  have "int N mod int k = int (N mod k)" by (simp add: zmod_int)
  then show ?thesis by (simp add: mod_eq_0_iff_dvd)
qed

lemma resize_loop_divisor:
  assumes "0 < t"
  shows "resize_loop (int N) (int t) = Some (Inr (int (largest_divisor_upto N t)))"
  using assms
proof (induction t)
  case 0
  then show ?case by simp
next
  case (Suc t)
  show ?case
  proof (cases "t = 0")
    case True
    have "largest_divisor_upto N (Suc 0) = 1"
      using largest_divisor_upto_props(2,3) [of "Suc 0" N] by simp
    moreover have "resize_loop (int N) (int (Suc 0)) = Some (Inr 1)"
      by (subst resize_loop.simps) simp
    ultimately show ?thesis using True by simp
  next
    case False
    then have t: "0 < t" by simp
    have step: "resize_loop (int N) (int (Suc t))
                  = (if Suc t dvd N then Some (Inr (int (Suc t)))
                     else resize_loop (int N) (int t))"
    proof -
      have "int (Suc t) - 1 = int t" by simp
      then show ?thesis
        by (subst resize_loop.simps) (simp only: int_mod_dvd, simp)
    qed
    show ?thesis
      using step Suc.IH [OF t] by (simp add: largest_divisor_upto_Suc [OF t])
  qed
qed

lemma quotient_of_divisor:
  assumes "d dvd N" and "0 < d"
  shows "(real_of_int (int d) < real N / real_of_int (int d)) = (d < N div d)"
    and "round (real N / real_of_int (int d)) = int (N div d)"
proof -
  have q: "real N / real_of_int (int d) = real (N div d)"
    using assms(1) by (simp add: real_of_nat_div)
  show "(real_of_int (int d) < real N / real_of_int (int d)) = (d < N div d)"
    unfolding q by simp
  show "round (real N / real_of_int (int d)) = int (N div d)"
    unfolding q by simp
qed

lemma spec_resolution_props:
  assumes "0 < N" and "0 < t"
  shows "spec_resolution N t dvd N" and "0 < spec_resolution N t"
proof -
  define d where "d = largest_divisor_upto N t"
  have d: "d dvd N" "1 \<le> d"
    using largest_divisor_upto_props(1,2) [OF assms(2), of N] by (simp_all add: d_def)
  have "N div d dvd N"
  proof -
    obtain k where k: "N = d * k" using d(1) by (auto simp: dvd_def)
    then have "N div d = k" using d(2) by simp
    then show ?thesis using k by simp
  qed
  then show "spec_resolution N t dvd N"
    using d(1) by (simp add: spec_resolution_def Let_def d_def)
  have "0 < N div d" using d assms(1) by (simp add: div_greater_zero_iff dvd_imp_le)
  then show "0 < spec_resolution N t"
    using d(2) by (simp add: spec_resolution_def Let_def d_def)
qed

lemma grid_map2:
  "map2 h (concat (map (\<lambda>u. map (f u) [0..<I]) [0..<n]))
          (concat (map (\<lambda>u. map (g u) [0..<I]) [0..<n]))
     = concat (map (\<lambda>u. map (\<lambda>q. h (f u q) (g u q)) [0..<I]) [0..<n])"
proof (induction n)
  case 0
  show ?case by simp
next
  case (Suc n)
  have "map2 h (map (f n) [0..<I]) (map (g n) [0..<I]) = map (\<lambda>q. h (f n q) (g n q)) [0..<I]"
    by (rule map2_map_map)
  then show ?case
    using Suc by (simp add: length_concat_grid)
qed

lemma grid_row:
  assumes "u < n"
  shows "take I (drop (u * I) (concat (map (\<lambda>u. map (g u) [0..<I]) [0..<n])))
           = map (g u) [0..<I]"
proof (rule nth_equalityI)
  have "(u + 1) * I \<le> n * I" using assms by (intro mult_le_mono1) simp
  then have room: "I \<le> n * I - u * I" by simp
  show len: "length (take I (drop (u * I) (concat (map (\<lambda>u. map (g u) [0..<I]) [0..<n]))))
          = length (map (g u) [0..<I])"
    using room by (simp add: length_concat_grid)
  fix q assume "q < length (take I (drop (u * I) (concat (map (\<lambda>u. map (g u) [0..<I]) [0..<n]))))"
  then have q: "q < I" using len by simp
  have lo: "u * I \<le> length (concat (map (\<lambda>u. map (g u) [0..<I]) [0..<n]))"
    using assms by (simp add: length_concat_grid)
  have "u * I + q < n * I" using assms q by (rule grid_index_less)
  then show "take I (drop (u * I) (concat (map (\<lambda>u. map (g u) [0..<I]) [0..<n]))) ! q
          = map (g u) [0..<I] ! q"
    using q nth_concat_grid [OF assms q, of g] nth_drop [OF lo, of q] by simp
qed

lemma trapz_grid:
  "trapz \<lparr>shape = [r, r], data = concat (map (\<lambda>u. map (p u) [0..<r]) [0..<r])\<rparr>
     = Inr \<lparr>shape = [r], data = map (\<lambda>u. trapz_list (map (p u) [0..<r])) [0..<r]\<rparr>"
proof -
  have "map (\<lambda>u. trapz_list (take r (drop (u * r)
              (concat (map (\<lambda>u. map (p u) [0..<r]) [0..<r]))))) [0..<r]
          = map (\<lambda>u. trapz_list (map (p u) [0..<r])) [0..<r]"
    by (rule map_cong [OF refl]) (simp add: grid_row)
  then show ?thesis by (simp add: trapz_def Let_def)
qed

lemma trapz_vector:
  assumes "length ys = r"
  shows "trapz \<lparr>shape = [r], data = ys\<rparr> = Inr \<lparr>shape = [], data = [trapz_list ys]\<rparr>"
  using assms by (simp add: trapz_def Let_def)

lemma zernike_coefficient_grid:
  "zernike_coefficient zernike
     \<lparr>shape = [r, r], data = concat (map (\<lambda>u. map (b u) [0..<r]) [0..<r])\<rparr> r num_pixels i
     = Inr (trapz_list (map (\<lambda>u. trapz_list (map (\<lambda>q. b u q * zernike i r u q) [0..<r])) [0..<r])
            / real num_pixels)"
proof -
  have m: "multiply \<lparr>shape = [r, r], data = concat (map (\<lambda>u. map (b u) [0..<r]) [0..<r])\<rparr>
             (zernike_array zernike i r)
           = Inr \<lparr>shape = [r, r],
                  data = concat (map (\<lambda>u. map (\<lambda>q. b u q * zernike i r u q) [0..<r]) [0..<r])\<rparr>"
    by (simp add: multiply_def zernike_array_def grid_map2)
  have v: "trapz \<lparr>shape = [r],
                  data = map (\<lambda>u. trapz_list (map (\<lambda>q. b u q * zernike i r u q) [0..<r])) [0..<r]\<rparr>
           = Inr \<lparr>shape = [],
                  data = [trapz_list (map (\<lambda>u. trapz_list (map (\<lambda>q. b u q * zernike i r u q) [0..<r]))
                            [0..<r])]\<rparr>"
    by (rule trapz_vector) simp
  show ?thesis
    unfolding zernike_coefficient_def m by (simp add: trapz_grid v)
qed

lemma zcoeffs_dbl_map:
  "\<forall>i\<in>set is. f i = Inr (g i) \<Longrightarrow> zcoeffs_dbl f is = Inr (map g is)"
  by (induction "is") simp_all

text \<open>
  C7. For a square phase map of side \<open>N\<close> (at least 1) and a target resolution of at
  least 1, \<^verbatim>\<open>get_zernike_modes\<close> ends, works at the resolution \<open>r\<close> that is the
  largest divisor \<open>d\<close> of \<open>N\<close> not above the target, replaced by \<open>N div d\<close> when
  \<open>d\<close> is smaller than that quotient, bins the map by block means to \<open>r x r\<close>, and
  returns exactly \<open>numModes\<close> coefficients, for the modes 1, 2, ... in ascending order:
  each the trapezoidal integral over the rows of the trapezoidal integrals along the
  rows of the binned map times that mode's basis function, divided by the number of
  nonzero entries of the basis function of mode 1 at resolution \<open>r\<close> (taken nonzero).
\<close>

theorem get_zernike_modes_project:
  assumes "shape image_unwrap = [N, N]" and "wf_ndarray image_unwrap"
      and "0 < N" and "0 < targetResolution"
      and "d = largest_divisor_upto N (nat targetResolution)"
      and "r = spec_resolution N (nat targetResolution)"
      and "count_nonzero (zernike_array zernike 1 r) \<noteq> 0"
  shows "get_zernike_modes zernike image_unwrap numModes targetResolution
           = Some (Inr (map (spec_coefficient zernike image_unwrap N r) [1..<numModes + 1]))
         \<and> length (map (spec_coefficient zernike image_unwrap N r) [1..<numModes + 1]) = numModes
         \<and> d dvd N \<and> int d \<le> targetResolution
         \<and> (\<forall>e. e dvd N \<and> int e \<le> targetResolution \<longrightarrow> e \<le> d)
         \<and> r = (if d < N div d then N div d else d)
         \<and> bin_ndarray image_unwrap [r, r] ''mean''
             = Inr \<lparr>shape = [r, r],
                    data = concat (map (\<lambda>i. map (\<lambda>j. block_mean (data image_unwrap) N
                                                    (N div r) (N div r) i j) [0..<r]) [0..<r])\<rparr>"
proof -
  define t where "t = nat targetResolution"
  have t: "0 < t" "int t = targetResolution" using assms(4) by (simp_all add: t_def)
  have d: "d dvd N" "1 \<le> d" "d \<le> t"
    using largest_divisor_upto_props(1,2,3) [OF t(1), of N] by (simp_all add: assms(5) t_def)
  have dmax: "\<forall>e. e dvd N \<and> int e \<le> targetResolution \<longrightarrow> e \<le> d"
  proof (intro allI impI)
    fix e assume e: "e dvd N \<and> int e \<le> targetResolution"
    then have "e \<le> t" using t(2) by simp
    moreover have "1 \<le> e" using e assms(3) by (cases e) auto
    ultimately show "e \<le> d"
      using largest_divisor_upto_props(4) [OF t(1), of e N] e by (simp add: assms(5) t_def)
  qed
  have rdef: "r = (if d < N div d then N div d else d)"
    by (simp add: assms(5,6) spec_resolution_def Let_def)
  have r: "r dvd N" "0 < r"
    using spec_resolution_props [OF assms(3) t(1)] by (simp_all add: assms(6) t_def)
  have Nr: "N = r * (N div r)" using r(1) by simp
  have loop: "resize_loop (int N) targetResolution = Some (Inr (int d))"
    using resize_loop_divisor [OF t(1), of N] unfolding t(2) by (simp add: assms(5) t_def)
  have dpos: "0 < d" using d(2) by simp
  have r2: "(if real_of_int (int d) < real N / real_of_int (int d)
             then round (real N / real_of_int (int d)) else int d) = int r"
    by (simp only: quotient_of_divisor [OF d(1) dpos] rdef) simp
  have sh: "shape image_unwrap = [r * (N div r), r * (N div r)]"
    using assms(1) Nr by simp
  have low: "lower ''mean'' = ''mean''" by code_simp
  have bin0: "bin_ndarray image_unwrap [r, r] ''mean''
             = Inr \<lparr>shape = [r, r],
                    data = concat (map (\<lambda>i. map (\<lambda>j. block_mean (data image_unwrap)
                                   (r * (N div r)) (N div r) (N div r) i j) [0..<r]) [0..<r])\<rparr>"
    by (rule bin_ndarray_2d_mean [OF r(2) r(2) sh assms(2) low])
  have bin: "bin_ndarray image_unwrap [r, r] ''mean''
             = Inr \<lparr>shape = [r, r],
                    data = concat (map (\<lambda>i. map (\<lambda>j. block_mean (data image_unwrap) N
                                                    (N div r) (N div r) i j) [0..<r]) [0..<r])\<rparr>"
    using bin0 Nr by simp
  define num_pixels where "num_pixels = count_nonzero (zernike_array zernike 1 r)"
  have coef: "zernike_coefficient zernike
                \<lparr>shape = [r, r],
                   data = concat (map (\<lambda>i. map (\<lambda>j. block_mean (data image_unwrap) N
                                                    (N div r) (N div r) i j) [0..<r]) [0..<r])\<rparr>
                r num_pixels i
              = Inr (spec_coefficient zernike image_unwrap N r i)" for i
    unfolding zernike_coefficient_grid
    by (simp add: spec_coefficient_def num_pixels_def count_nonzero_def zernike_array_def)
  have all: "zcoeffs_dbl
               (zernike_coefficient zernike
                  \<lparr>shape = [r, r],
                     data = concat (map (\<lambda>i. map (\<lambda>j. block_mean (data image_unwrap) N
                                                    (N div r) (N div r) i j) [0..<r]) [0..<r])\<rparr>
                  r num_pixels)
               [1..<numModes + 1]
             = Inr (map (spec_coefficient zernike image_unwrap N r) [1..<numModes + 1])"
    by (rule zcoeffs_dbl_map) (simp add: coef)
  have run: "get_zernike_modes zernike image_unwrap numModes targetResolution
           = Some (Inr (map (spec_coefficient zernike image_unwrap N r) [1..<numModes + 1]))"
    unfolding get_zernike_modes_def assms(1) list.case loop option.case sum.case Let_def r2
    using all by (simp add: bin num_pixels_def del: upt_Suc)
  have len: "length (map (spec_coefficient zernike image_unwrap N r) [1..<numModes + 1]) = numModes"
    by simp
  have dt: "int d \<le> targetResolution" using d(3) t(2) by simp
  show ?thesis
    using run len d(1) dt dmax rdef bin by (intro conjI)
qed

theorem get_zernike_modes_project_witness:
  "get_zernike_modes example_zernike \<lparr>shape = [4, 4], data = map real [0..<16]\<rparr> 2 3
     = Some (Inr [15 / 8, 1 / 8])
   \<and> bin_ndarray \<lparr>shape = [4, 4], data = map real [0..<16]\<rparr> [2, 2] ''mean''
     = Inr \<lparr>shape = [2, 2], data = [5 / 2, 9 / 2, 21 / 2, 25 / 2]\<rparr>"
proof -
  define a where "a = \<lparr>shape = [4, 4], data = map real [0..<16]\<rparr>"
  have n3: "nat 3 = 3" by simp
  have h1: "shape a = [4, 4]" by (simp add: a_def)
  have h2: "wf_ndarray a" by (simp add: a_def wf_ndarray_def)
  have h3: "(0::nat) < 4" and h4: "(0::int) < 3" by simp_all
  have h5: "(2::nat) = largest_divisor_upto 4 (nat 3)" unfolding n3 by code_simp
  have h6: "(2::nat) = spec_resolution 4 (nat 3)" unfolding n3 by code_simp
  have h7: "count_nonzero (zernike_array example_zernike 1 2) \<noteq> 0" by code_simp
  have modes: "map (spec_coefficient example_zernike a 4 2) [1..<2 + 1] = [15 / 8, 1 / 8]"
    unfolding a_def by code_simp
  have grid: "concat (map (\<lambda>i. map (\<lambda>j. block_mean (data a) 4 (4 div 2) (4 div 2) i j)
                [0..<2]) [0..<2]) = [5 / 2, 9 / 2, 21 / 2, 25 / 2]"
    unfolding a_def by code_simp
  note T = get_zernike_modes_project [OF h1 h2 h3 h4 h5 h6 h7, of 2]
  have r1: "get_zernike_modes example_zernike a 2 3 = Some (Inr [15 / 8, 1 / 8])"
    using T unfolding modes by blast
  have r2: "bin_ndarray a [2, 2] ''mean''
              = Inr \<lparr>shape = [2, 2], data = [5 / 2, 9 / 2, 21 / 2, 25 / 2]\<rparr>"
    using T unfolding grid by blast
  show ?thesis using r1 r2 unfolding a_def by simp
qed

subsection \<open>Filter construction\<close>

lemma py_slice_len_beyond:
  assumes "1 \<le> h" and "2 * h \<le> n" and "0 \<le> m" and "m < int n"
      and "m - int h < 0 \<or> int n < m + int h"
  shows "py_slice_len n (m - int h) (m + int h) \<noteq> 2 * h"
    and "py_slice_len n (m - int h) (m + int h) \<noteq> 1"
  using assms unfolding py_slice_len_def py_bound_def by (auto split: if_splits)

text \<open>
  When the spectrum is at least as large as the window, a window that reaches beyond the
  spectrum on any side makes the assignment fail, and the stripes-too-fine exception is
  raised.
\<close>

lemma window_values_beyond_bounds:
  assumes "1 \<le> h" and "2 * h \<le> cshape0 a" and "2 * h \<le> cshape1 a"
      and "0 \<le> m0" and "m0 < int (cshape1 a)" and "0 \<le> m1" and "m1 < int (cshape0 a)"
      and "m0 - int h < 0 \<or> int (cshape1 a) < m0 + int h
           \<or> m1 - int h < 0 \<or> int (cshape0 a) < m1 + int h"
  shows "window_values a (m0, m1) (2 * h) = Inl FilterConstructionError"
proof -
  have half: "int (2 * h) div 2 = int h" by simp
  have "py_slice_len (cshape1 a) (m0 - int h) (m0 + int h) \<noteq> 2 * h
          \<and> py_slice_len (cshape1 a) (m0 - int h) (m0 + int h) \<noteq> 1
        \<or> py_slice_len (cshape0 a) (m1 - int h) (m1 + int h) \<noteq> 2 * h
          \<and> py_slice_len (cshape0 a) (m1 - int h) (m1 + int h) \<noteq> 1"
    using assms(8) py_slice_len_beyond [OF assms(1,3,4,5)] py_slice_len_beyond [OF assms(1,2,6,7)]
    by blast
  then show ?thesis
    unfolding window_values_def Let_def half by auto
qed

lemma example_spectrum_window:
  "window_values example_spectrum (10, 20) 100 = Inr (replicate 100 (replicate 100 0))"
proof -
  have rows: "py_slice (crows example_spectrum) (20 - 50) (20 + 50)
                = [map (\<lambda>c. 1) [0..<99]]"
    by (simp add: py_slice_def py_bound_def example_spectrum_def take_map drop_map)
  have cols: "py_slice (map (\<lambda>c. (1::complex)) [0..<99]) (- 40) 60 = [1]"
    by (simp add: py_slice_def py_bound_def take_map drop_map)
  have p: "py_slice_len (cshape0 example_spectrum) (20 - 50) (20 + 50) = 1"
    and q: "py_slice_len (cshape1 example_spectrum) (10 - 50) (10 + 50) = 1"
    by (simp_all add: py_slice_len_def py_bound_def example_spectrum_def)
  have half: "int 100 div 2 = 50" by simp
  show ?thesis
    unfolding window_values_def Let_def half fst_conv snd_conv rows p q
    by (simp add: cols)
qed

text \<open>
  C9: the missed case. A 99 x 99 spectrum with its peak at row 20 and column 10, refined
  with the default window of side 100: the window reaches 30 rows and 40 columns
  beyond the start of the spectrum, the two slices wrap round to the single entry at row
  69 and column 59, the assignment broadcasts that entry over the whole window, and no
  stripes-too-fine exception is raised; the call ends with the ValueError of the
  centroid stage instead.
\<close>

theorem make_fft_filter_window_beyond_spectrum:
  "py_slice_len (cshape0 example_spectrum) (20 - 50) (20 + 50) = 1
   \<and> py_slice_len (cshape1 example_spectrum) (10 - 50) (10 + 50) = 1
   \<and> window_values example_spectrum (10, 20) 100 = Inr (replicate 100 (replicate 100 0))
   \<and> refine_loop example_otsu_centroid example_spectrum 100 10 (10, 20) = Inl ValueError
   \<and> make_fft_filter (\<lambda>img region. example_spectrum) (\<lambda>fftarray. 1990)
        example_otsu_centroid (\<lambda>fftarray refined mask_di. ()) (init :: unit ao_state) ()
        None None None = Inl ValueError"
proof -
  have p: "py_slice_len (cshape0 example_spectrum) (20 - 50) (20 + 50) = 1"
    and q: "py_slice_len (cshape1 example_spectrum) (10 - 50) (10 + 50) = 1"
    by (simp_all add: py_slice_len_def py_bound_def example_spectrum_def)
  have flat: "example_otsu_centroid (replicate 100 (replicate 100 0)) = Inl ValueError"
    by (simp add: example_otsu_centroid_def list_all_iff)
  have first: "refine_loop example_otsu_centroid example_spectrum 100 (Suc k) (10, 20)
                 = Inl ValueError" for k
    by (simp add: example_spectrum_window flat)
  have loop: "refine_loop example_otsu_centroid example_spectrum 100 10 (10, 20) = Inl ValueError"
    using first [of 9] by simp
  have shape: "cshape0 example_spectrum = 99" "cshape1 example_spectrum = 99"
    by (simp_all add: example_spectrum_def)
  have point: "(int (1990 mod 99), int (1990 div 99)) = (10, 20)" by simp
  have run: "make_fft_filter (\<lambda>img region. example_spectrum) (\<lambda>fftarray. 1990)
        example_otsu_centroid (\<lambda>fftarray refined mask_di. ()) (init :: unit ao_state) ()
        None None None = Inl ValueError"
    unfolding make_fft_filter_def Let_def shape point
    by (simp add: window_side_def loop)
  show ?thesis using p q example_spectrum_window loop run by (intro conjI)
qed

subsection \<open>Phase extraction\<close>

text \<open>
  C8, as amended. With no Fourier filter or no aperture mask set,
  \<^verbatim>\<open>unwrap_interferometry\<close> does not return a phase map: it fails with the error numpy
  raises when the missing object, \<^verbatim>\<open>None\<close>, reaches \<^verbatim>\<open>np.fft.fftshift\<close> and the
  product with the spectrum, or the product with the wrapped phase. The source has no
  test of its own for the two fields and no error of its own for them.
\<close>

theorem unwrap_interferometry_not_set:
  assumes "fft_filter self = None \<or> mask self = None"
  shows "unwrap_interferometry windowed_spectrum wrapped_phase array_product unwrap_phase self img
           = Inl NoneOperandError"
  using assms
  by (auto simp: unwrap_interferometry_def Let_def split: option.splits)

theorem unwrap_interferometry_not_set_witness:
  "unwrap_interferometry (\<lambda>img. img) (\<lambda>f fftarray. f * fftarray) (\<lambda>a b. a * b) (\<lambda>a. a)
     (set_fft_filter init 2) (3 :: real) = Inl NoneOperandError
   \<and> unwrap_interferometry (\<lambda>img. img) (\<lambda>f fftarray. f * fftarray) (\<lambda>a b. a * b) (\<lambda>a. a)
     (set_mask init 1) (3 :: real) = Inl NoneOperandError"
proof -
  have h1: "fft_filter (set_fft_filter init (2 :: real)) = None
              \<or> mask (set_fft_filter init (2 :: real)) = None"
    by (simp add: set_fft_filter_def init_def)
  have h2: "fft_filter (set_mask init (1 :: real)) = None
              \<or> mask (set_mask init (1 :: real)) = None"
    by (simp add: set_mask_def init_def)
  show ?thesis
    by (simp add: unwrap_interferometry_not_set [OF h1] unwrap_interferometry_not_set [OF h2])
qed

text \<open>
  The claim C8 as stated fails: on the state \<^verbatim>\<open>__init__\<close> leaves, with neither field
  set, the call fails with numpy's error for a \<^verbatim>\<open>None\<close> operand, which is not an
  error that says the instrument is not calibrated; once both fields are set the same
  call returns.
\<close>

theorem unwrap_interferometry_not_set_counterexample:
  "unwrap_interferometry (\<lambda>img. img) (\<lambda>f fftarray. f * fftarray) (\<lambda>a b. a * b) (\<lambda>a. a)
     init (3 :: real) = Inl NoneOperandError
   \<and> unwrap_interferometry (\<lambda>img. img) (\<lambda>f fftarray. f * fftarray) (\<lambda>a b. a * b) (\<lambda>a. a)
     init (3 :: real) \<noteq> Inl NotCalibratedError
   \<and> unwrap_interferometry (\<lambda>img. img) (\<lambda>f fftarray. f * fftarray) (\<lambda>a b. a * b) (\<lambda>a. a)
     (set_mask (set_fft_filter init 2) 1) (3 :: real) = Inr 6"
  by (simp add: unwrap_interferometry_def init_def set_mask_def set_fft_filter_def)

end
